theory Spec2Isabelle
  imports Main "HOL-Library.Word" "HOL-Library.AList"
begin

section \<open>The post-processing pipeline of the engine (PostProcess.cpp)\<close>

text \<open>
  The pipeline is the second half of \<^verbatim>\<open>src/Graphics/Shader.cpp\<close>: the classes
  \<^verbatim>\<open>PostProcessEffect_Base\<close> (one full-screen pass) and \<^verbatim>\<open>PostProcessManager\<close>
  (the chain of passes and the two ping-pong render targets). Everything the code does to
  Direct3D is made explicit here as a state of type \<open>world\<close>: the objects the device has
  created and not yet released, the bindings of the immediate context, the draw calls issued
  so far, and the one function-local static of the program (\<^verbatim>\<open>copyEffect\<close>).
\<close>

subsection \<open>Pointers, enumerations and descriptors\<close>

text \<open>A pointer is an address; address 0 is \<^verbatim>\<open>nullptr\<close>.\<close>

type_synonym ptr = nat

abbreviation nullptr :: ptr where
  "nullptr \<equiv> 0"

type_synonym UINT = "32 word"
type_synonym size_t = "64 word"
type_synonym float = "32 word"

text \<open>\<^verbatim>\<open>enum class PostProcessEffect\<close>; \<open>PostProcessEffect_None\<close> is the enumerator \<^verbatim>\<open>None\<close>.\<close>

datatype PostProcessEffect =
    PostProcessEffect_None | Grayscale | Sepia | Invert | Blur | GaussianBlur | Bloom | ToneMapping
  | FXAA | Vignette | ColorCorrection | DepthOfField | MotionBlur | Count

text \<open>The shader sources are opaque to the pipeline: each is named by its constant.\<close>

datatype shader_source =
    FULLSCREEN_QUAD_VS | COPY_PS | GRAYSCALE_PS | BLOOM_PS | GAUSSIAN_BLUR_PS
  | TONE_MAPPING_PS | VIGNETTE_PS

datatype ShaderType = Vertex | Pixel

datatype DXGI_FORMAT = DXGI_FORMAT_R8G8B8A8_UNORM

datatype D3D11_USAGE = D3D11_USAGE_DEFAULT | D3D11_USAGE_IMMUTABLE | D3D11_USAGE_DYNAMIC

datatype D3D11_BIND_FLAG =
    D3D11_BIND_VERTEX_BUFFER | D3D11_BIND_CONSTANT_BUFFER
  | D3D11_BIND_SHADER_RESOURCE | D3D11_BIND_RENDER_TARGET

record D3D11_TEXTURE2D_DESC =
  Width :: UINT
  Height :: UINT
  Format :: DXGI_FORMAT
  TextureBindFlags :: "D3D11_BIND_FLAG list"

record D3D11_BUFFER_DESC =
  Usage :: D3D11_USAGE
  ByteWidth :: UINT
  BindFlags :: "D3D11_BIND_FLAG list"

text \<open>
  What a live address of the device holds. A view records the resource it was created on;
  a shader object is the \<^verbatim>\<open>Shader\<close> wrapper that \<^verbatim>\<open>ShaderUtils\<close> returns, compiled.
\<close>

datatype object =
    Texture2D D3D11_TEXTURE2D_DESC
  | RenderTargetView ptr
  | ShaderResourceView ptr
  | Buffer D3D11_BUFFER_DESC
  | ShaderObject ShaderType shader_source
  | SamplerState

subsection \<open>The parameter block\<close>

text \<open>
  \<^verbatim>\<open>struct PostProcessParams\<close> of PostProcess.h. A \<^verbatim>\<open>float\<close> is its 32-bit pattern,
  which is what \<^verbatim>\<open>memcpy\<close> moves into the constant buffer.
\<close>

record XMFLOAT3 =
  x :: float
  y :: float
  z :: float

record PostProcessParams =
  intensity :: float
  threshold :: float
  radius :: float
  sigma :: float
  colorTint :: XMFLOAT3
  contrast :: float
  brightness :: float
  saturation :: float
  gamma :: float
  bloomThreshold :: float
  bloomIntensity :: float
  bloomBlurPasses :: "32 word"
  exposure :: float
  whitePoint :: float
  fxaaSpanMax :: float
  fxaaReduceMin :: float
  fxaaReduceMul :: float
  vignetteRadius :: float
  vignetteSoftness :: float
  vignetteColor :: XMFLOAT3

text \<open>The default constructor (1.0f is 0x3F800000, 2.2f is 0x400CCCCD, and so on).\<close>

definition PostProcessParams_ctor :: PostProcessParams where
  "PostProcessParams_ctor =
     \<lparr> intensity = 0x3F800000, threshold = 0x3F000000, radius = 0x3F800000,
       sigma = 0x3F800000,
       colorTint = \<lparr> x = 0x3F800000, y = 0x3F800000, z = 0x3F800000 \<rparr>,
       contrast = 0x3F800000, brightness = 0, saturation = 0x3F800000,
       gamma = 0x400CCCCD,
       bloomThreshold = 0x3F800000, bloomIntensity = 0x3F800000, bloomBlurPasses = 3,
       exposure = 0x3F800000, whitePoint = 0x3F800000,
       fxaaSpanMax = 0x41000000, fxaaReduceMin = 0x3C000000, fxaaReduceMul = 0x3E000000,
       vignetteRadius = 0x3F4CCCCD, vignetteSoftness = 0x3E4CCCCD,
       vignetteColor = \<lparr> x = 0, y = 0, z = 0 \<rparr> \<rparr>"

text \<open>
  The byte sizes of the members of \<^verbatim>\<open>PostProcessParams\<close> in declaration order
  (\<^verbatim>\<open>float\<close> and \<^verbatim>\<open>int\<close> 4 bytes, \<^verbatim>\<open>XMFLOAT3\<close> 12). Every member is 4-byte
  aligned, so the struct has no padding and \<^verbatim>\<open>sizeof\<close> is the sum.
\<close>

definition PostProcessParams_members :: "nat list" where
  "PostProcessParams_members =
     [4, 4, 4, 4, 12, 4, 4, 4, 4, 4, 4, 4, 4, 4, 4, 4, 4, 4, 4, 12]"

definition sizeof_PostProcessParams :: size_t where
  "sizeof_PostProcessParams = of_nat (sum_list PostProcessParams_members)"

text \<open>
  \<^verbatim>\<open>return ((sizeof(PostProcessParams) + 15) / 16) * 16;\<close> computed in \<^verbatim>\<open>size_t\<close>
  and converted to the \<^verbatim>\<open>UINT\<close> return type.
\<close>

definition GetParameterBufferSize :: UINT where
  "GetParameterBufferSize = ucast (((sizeof_PostProcessParams + 15) div 16) * 16)"

subsection \<open>The device, the immediate context and the program's static\<close>

text \<open>
  A draw call is logged with the pipeline state it ran under: the render target written,
  the texture read at slot t0, the shaders, the constant buffer at b0, the sampler at s0
  and the viewport size.
\<close>

record draw =
  target :: ptr
  source :: ptr
  vertex_shader :: ptr
  pixel_shader :: ptr
  constants :: ptr
  sampler :: ptr
  view :: "int \<times> int"

record PostProcessEffect_Base =
  m_type :: PostProcessEffect
  m_enabled :: bool
  m_vertexShader :: ptr
  m_pixelShader :: ptr
  m_parameterBuffer :: ptr
  m_effectWidth :: int
  m_effectHeight :: int

text \<open>
  \<open>objects\<close> are the live objects of the device, \<open>allocated\<close> counts the objects ever
  created (the next one gets address \<open>Suc (allocated w)\<close>, never null), and \<open>outcomes\<close>
  are the results of the fallible Direct3D calls still to come, in call order: \<open>True\<close> for
  \<^verbatim>\<open>SUCCEEDED(hr)\<close>; once the list is used up every call succeeds. \<open>contents\<close> is what
  the constant buffers hold. \<open>copyEffect\<close> is the \<^verbatim>\<open>static std::unique_ptr\<close> inside
  \<^verbatim>\<open>PostProcessManager::CopyTexture\<close>, \<open>None\<close> while it is null.
\<close>

record world =
  objects :: "(ptr \<times> object) list"
  allocated :: nat
  outcomes :: "bool list"
  contents :: "(ptr \<times> PostProcessParams) list"
  OMRenderTarget :: ptr
  Viewport :: "int \<times> int"
  VSShader :: ptr
  PSShader :: ptr
  PSShaderResource :: ptr
  PSConstantBuffer :: ptr
  PSSampler :: ptr
  draws :: "draw list"
  copyEffect :: "PostProcessEffect_Base option"

datatype error = NullPointerDereference

text \<open>The next \<^verbatim>\<open>HRESULT\<close> the driver returns.\<close>

definition next_outcome :: "world \<Rightarrow> bool \<times> world" where
  "next_outcome w =
     (case outcomes w of
        [] \<Rightarrow> (True, w)
      | ok # rest \<Rightarrow> (ok, w\<lparr>outcomes := rest\<rparr>))"

text \<open>
  Any \<^verbatim>\<open>device->Create...\<close> call: on success the object is live at a fresh address, on
  failure the out-pointer is null.
\<close>

definition create :: "object \<Rightarrow> world \<Rightarrow> ptr \<times> world" where
  "create ob w =
     (let (ok, w1) = next_outcome w in
      if ok
      then (Suc (allocated w1),
            w1\<lparr>objects := objects w1 @ [(Suc (allocated w1), ob)],
               allocated := Suc (allocated w1)\<rparr>)
      else (nullptr, w1))"

text \<open>\<^verbatim>\<open>p->Release()\<close> on the only reference: the object is gone.\<close>

definition release :: "ptr \<Rightarrow> world \<Rightarrow> world" where
  "release p w = w\<lparr>objects := filter (\<lambda>(q, ob). q \<noteq> p) (objects w)\<rparr>"

subsection \<open>Shader and ShaderUtils\<close>

text \<open>
  \<^verbatim>\<open>ShaderUtils::CreateVertexShaderFromString\<close> and \<^verbatim>\<open>CreatePixelShaderFromString\<close>:
  \<^verbatim>\<open>Shader::CompileFromString\<close> refuses a null device, then compiles and creates the
  shader (and its input layout); when any of that fails the wrapper is destroyed with all it
  made and the result is a null \<^verbatim>\<open>shared_ptr\<close>. The steps are one fallible call here.
\<close>

definition CreateVertexShaderFromString :: "ptr \<Rightarrow> shader_source \<Rightarrow> world \<Rightarrow> ptr \<times> world" where
  "CreateVertexShaderFromString device shaderCode w =
     (if device = nullptr then (nullptr, w) else create (ShaderObject Vertex shaderCode) w)"

definition CreatePixelShaderFromString :: "ptr \<Rightarrow> shader_source \<Rightarrow> world \<Rightarrow> ptr \<times> world" where
  "CreatePixelShaderFromString device shaderCode w =
     (if device = nullptr then (nullptr, w) else create (ShaderObject Pixel shaderCode) w)"

text \<open>
  \<^verbatim>\<open>Shader::Bind\<close>: a vertex shader goes to the VS stage, a pixel shader to the PS stage
  (\<^verbatim>\<open>m_isCompiled\<close> holds for every wrapper that \<^verbatim>\<open>ShaderUtils\<close> returned).
\<close>

definition Shader_Bind :: "ptr \<Rightarrow> ptr \<Rightarrow> world \<Rightarrow> world" where
  "Shader_Bind shader context w =
     (if context = nullptr then w
      else case map_of (objects w) shader of
             Some (ShaderObject Vertex code) \<Rightarrow> w\<lparr>VSShader := shader\<rparr>
           | Some (ShaderObject Pixel code) \<Rightarrow> w\<lparr>PSShader := shader\<rparr>
           | _ \<Rightarrow> w)"

subsection \<open>PostProcessEffect_Base\<close>

text \<open>
  The constructor. It leaves the two dimensions indeterminate; they are 0 here, and are
  read only by \<open>Apply\<close>, after \<open>Effect_Initialize\<close> has stored them or on the path that ends in
  a null dereference.
\<close>

definition PostProcessEffect_Base_ctor :: "PostProcessEffect \<Rightarrow> PostProcessEffect_Base" where
  "PostProcessEffect_Base_ctor type =
     \<lparr> m_type = type, m_enabled = True, m_vertexShader = nullptr, m_pixelShader = nullptr,
       m_parameterBuffer = nullptr, m_effectWidth = 0, m_effectHeight = 0 \<rparr>"

definition GetPixelShaderCode :: "PostProcessEffect_Base \<Rightarrow> shader_source" where
  "GetPixelShaderCode e =
     (case m_type e of
        Grayscale \<Rightarrow> GRAYSCALE_PS
      | Bloom \<Rightarrow> BLOOM_PS
      | GaussianBlur \<Rightarrow> GAUSSIAN_BLUR_PS
      | ToneMapping \<Rightarrow> TONE_MAPPING_PS
      | Vignette \<Rightarrow> VIGNETTE_PS
      | _ \<Rightarrow> COPY_PS)"

definition parameter_buffer_desc :: D3D11_BUFFER_DESC where
  "parameter_buffer_desc =
     \<lparr> Usage = D3D11_USAGE_DYNAMIC, ByteWidth = GetParameterBufferSize,
       BindFlags = [D3D11_BIND_CONSTANT_BUFFER] \<rparr>"

text \<open>
  \<^verbatim>\<open>bool PostProcessEffect_Base::Initialize(device, width, height)\<close>: the result flag,
  the instance and the world afterwards. Each early \<^verbatim>\<open>return false\<close> keeps what was made
  before it.
\<close>

definition Effect_Initialize ::
  "ptr \<Rightarrow> int \<Rightarrow> int \<Rightarrow> PostProcessEffect_Base \<Rightarrow> world \<Rightarrow> bool \<times> PostProcessEffect_Base \<times> world" where
  "Effect_Initialize device width height e w =
     (if device = nullptr then (False, e, w)
      else
        let e1 = e\<lparr>m_effectWidth := width, m_effectHeight := height\<rparr>;
            (vs, w1) = CreateVertexShaderFromString device FULLSCREEN_QUAD_VS w;
            e2 = e1\<lparr>m_vertexShader := vs\<rparr>
        in if vs = nullptr then (False, e2, w1)
           else
             let (ps, w2) = CreatePixelShaderFromString device (GetPixelShaderCode e2) w1;
                 e3 = e2\<lparr>m_pixelShader := ps\<rparr>
             in if ps = nullptr then (False, e3, w2)
                else
                  let (buf, w3) = create (Buffer parameter_buffer_desc) w2;
                      e4 = e3\<lparr>m_parameterBuffer := buf\<rparr>
                  in if buf = nullptr then (False, e4, w3) else (True, e4, w3))"

text \<open>
  \<^verbatim>\<open>PostProcessEffect_Base::Shutdown\<close>, also run by the destructor: the buffer is
  released if there is one, and resetting each \<^verbatim>\<open>shared_ptr\<close> destroys its shader.
\<close>

definition Effect_Shutdown :: "PostProcessEffect_Base \<Rightarrow> world \<Rightarrow> PostProcessEffect_Base \<times> world" where
  "Effect_Shutdown e w =
     (let w1 = (if m_parameterBuffer e \<noteq> nullptr then release (m_parameterBuffer e) w else w);
          w2 = (if m_vertexShader e \<noteq> nullptr then release (m_vertexShader e) w1 else w1);
          w3 = (if m_pixelShader e \<noteq> nullptr then release (m_pixelShader e) w2 else w2)
      in (e\<lparr>m_parameterBuffer := nullptr, m_vertexShader := nullptr, m_pixelShader := nullptr\<rparr>,
          w3))"

text \<open>
  \<^verbatim>\<open>UpdateParameterBuffer\<close>: nothing without a buffer; otherwise \<^verbatim>\<open>Map\<close> may fail, and
  when it succeeds the block is copied in.
\<close>

definition UpdateParameterBuffer ::
  "ptr \<Rightarrow> PostProcessParams \<Rightarrow> PostProcessEffect_Base \<Rightarrow> world \<Rightarrow> world" where
  "UpdateParameterBuffer context params e w =
     (if m_parameterBuffer e = nullptr then w
      else
        let (ok, w1) = next_outcome w
        in if ok
           then w1\<lparr>contents :=
                     (m_parameterBuffer e, params)
                       # filter (\<lambda>(q, c). q \<noteq> m_parameterBuffer e) (contents w1)\<rparr>
           else w1)"

text \<open>
  \<^verbatim>\<open>DrawFullscreenQuad\<close>: a temporary vertex buffer of four vertices of 20 bytes is
  created for every draw; the draw happens only if that succeeded, and the buffer is
  released at once.
\<close>

definition quad_buffer_desc :: D3D11_BUFFER_DESC where
  "quad_buffer_desc =
     \<lparr> Usage = D3D11_USAGE_IMMUTABLE, ByteWidth = 80, BindFlags = [D3D11_BIND_VERTEX_BUFFER] \<rparr>"

definition the_draw :: "world \<Rightarrow> draw" where
  "the_draw w =
     \<lparr> target = OMRenderTarget w, source = PSShaderResource w, vertex_shader = VSShader w,
       pixel_shader = PSShader w, constants = PSConstantBuffer w, sampler = PSSampler w,
       view = Viewport w \<rparr>"

definition DrawFullscreenQuad :: "ptr \<Rightarrow> world \<Rightarrow> world" where
  "DrawFullscreenQuad context w =
     (let (vertexBuffer, w1) = create (Buffer quad_buffer_desc) w
      in if vertexBuffer \<noteq> nullptr
         then release vertexBuffer (w1\<lparr>draws := draws w1 @ [the_draw w1]\<rparr>)
         else w1)"

text \<open>
  \<^verbatim>\<open>PostProcessEffect_Base::Apply\<close>. The guard is the source's; there is no other check.
  \<^verbatim>\<open>m_vertexShader->Bind\<close> and \<^verbatim>\<open>m_pixelShader->Bind\<close> dereference the pointers
  unchecked.
\<close>

definition Apply ::
  "ptr \<Rightarrow> ptr \<Rightarrow> ptr \<Rightarrow> PostProcessParams \<Rightarrow> PostProcessEffect_Base \<Rightarrow> world \<Rightarrow> error + world" where
  "Apply context inputTexture outputTarget params e w =
     (if context = nullptr \<or> inputTexture = nullptr \<or> outputTarget = nullptr \<or> \<not> m_enabled e
      then Inr w
      else
        let w1 = UpdateParameterBuffer context params e w;
            w2 = w1\<lparr>OMRenderTarget := outputTarget\<rparr>;
            w3 = w2\<lparr>Viewport := (m_effectWidth e, m_effectHeight e)\<rparr>
        in if m_vertexShader e = nullptr then Inl NullPointerDereference
           else
             let w4 = Shader_Bind (m_vertexShader e) context w3
             in if m_pixelShader e = nullptr then Inl NullPointerDereference
                else
                  let w5 = Shader_Bind (m_pixelShader e) context w4;
                      w6 = w5\<lparr>PSShaderResource := inputTexture\<rparr>;
                      w7 = w6\<lparr>PSConstantBuffer := m_parameterBuffer e\<rparr>;
                      w8 = DrawFullscreenQuad context w7
                  in Inr (w8\<lparr>PSShaderResource := nullptr\<rparr>))"

subsection \<open>PostProcessManager\<close>

text \<open>
  \<open>m_effects\<close> is the \<^verbatim>\<open>unordered_map\<close> from effect type to instance, kept as an
  association list with one entry per key; \<open>m_effectOrder\<close> is the \<^verbatim>\<open>vector\<close> of types.
\<close>

record PostProcessManager =
  m_device :: ptr
  m_width :: int
  m_height :: int
  m_renderTarget1 :: ptr
  m_renderTarget2 :: ptr
  m_renderTargetView1 :: ptr
  m_renderTargetView2 :: ptr
  m_shaderResourceView1 :: ptr
  m_shaderResourceView2 :: ptr
  m_samplerState :: ptr
  m_effects :: "(PostProcessEffect \<times> PostProcessEffect_Base) list"
  m_effectOrder :: "PostProcessEffect list"
  m_parameters :: PostProcessParams

definition PostProcessManager_ctor :: PostProcessManager where
  "PostProcessManager_ctor =
     \<lparr> m_device = nullptr, m_width = 0, m_height = 0,
       m_renderTarget1 = nullptr, m_renderTarget2 = nullptr,
       m_renderTargetView1 = nullptr, m_renderTargetView2 = nullptr,
       m_shaderResourceView1 = nullptr, m_shaderResourceView2 = nullptr,
       m_samplerState = nullptr, m_effects = [], m_effectOrder = [],
       m_parameters = PostProcessParams_ctor \<rparr>"

text \<open>
  The one texture description both render targets are created from; the \<^verbatim>\<open>int\<close>
  dimensions are converted to \<^verbatim>\<open>UINT\<close>.
\<close>

definition textureDesc :: "PostProcessManager \<Rightarrow> D3D11_TEXTURE2D_DESC" where
  "textureDesc m =
     \<lparr> Width = word_of_int (m_width m), Height = word_of_int (m_height m),
       Format = DXGI_FORMAT_R8G8B8A8_UNORM,
       TextureBindFlags = [D3D11_BIND_RENDER_TARGET, D3D11_BIND_SHADER_RESOURCE] \<rparr>"

text \<open>
  \<^verbatim>\<open>bool PostProcessManager::CreateRenderTargets()\<close>: six creations in a row, each
  followed by \<^verbatim>\<open>if (FAILED(hr)) return false;\<close> and nothing else.
\<close>

definition CreateRenderTargets :: "PostProcessManager \<Rightarrow> world \<Rightarrow> bool \<times> PostProcessManager \<times> world" where
  "CreateRenderTargets m w =
     (if m_device m = nullptr then (False, m, w)
      else
        let (t1, w1) = create (Texture2D (textureDesc m)) w;
            m1 = m\<lparr>m_renderTarget1 := t1\<rparr>
        in if t1 = nullptr then (False, m1, w1)
        else
        let (rtv1, w2) = create (RenderTargetView (m_renderTarget1 m1)) w1;
            m2 = m1\<lparr>m_renderTargetView1 := rtv1\<rparr>
        in if rtv1 = nullptr then (False, m2, w2)
        else
        let (srv1, w3) = create (ShaderResourceView (m_renderTarget1 m2)) w2;
            m3 = m2\<lparr>m_shaderResourceView1 := srv1\<rparr>
        in if srv1 = nullptr then (False, m3, w3)
        else
        let (t2, w4) = create (Texture2D (textureDesc m)) w3;
            m4 = m3\<lparr>m_renderTarget2 := t2\<rparr>
        in if t2 = nullptr then (False, m4, w4)
        else
        let (rtv2, w5) = create (RenderTargetView (m_renderTarget2 m4)) w4;
            m5 = m4\<lparr>m_renderTargetView2 := rtv2\<rparr>
        in if rtv2 = nullptr then (False, m5, w5)
        else
        let (srv2, w6) = create (ShaderResourceView (m_renderTarget2 m5)) w5;
            m6 = m5\<lparr>m_shaderResourceView2 := srv2\<rparr>
        in if srv2 = nullptr then (False, m6, w6)
        else (True, m6, w6))"

text \<open>\<^verbatim>\<open>bool PostProcessManager::Initialize(device, width, height)\<close>.\<close>

definition Manager_Initialize ::
  "ptr \<Rightarrow> int \<Rightarrow> int \<Rightarrow> PostProcessManager \<Rightarrow> world \<Rightarrow> bool \<times> PostProcessManager \<times> world" where
  "Manager_Initialize device width height m w =
     (if device = nullptr then (False, m, w)
      else
        let m1 = m\<lparr>m_device := device, m_width := width, m_height := height\<rparr>;
            (ok, m2, w1) = CreateRenderTargets m1 w
        in if \<not> ok then (False, m2, w1)
           else
             let (s, w2) = create SamplerState w1;
                 m3 = m2\<lparr>m_samplerState := s\<rparr>
             in if s = nullptr then (False, m3, w2) else (True, m3, w2))"

text \<open>Release a member if it is set, and null it.\<close>

definition release_if :: "ptr \<Rightarrow> world \<Rightarrow> world" where
  "release_if p w = (if p \<noteq> nullptr then release p w else w)"

text \<open>
  \<^verbatim>\<open>PostProcessManager::Shutdown\<close>: every instance is shut down and the map cleared, the
  sampler, the views and the textures are released in that order, and the device pointer is
  dropped. \<^verbatim>\<open>m_effectOrder\<close> is not touched.
\<close>

definition Manager_Shutdown :: "PostProcessManager \<Rightarrow> world \<Rightarrow> PostProcessManager \<times> world" where
  "Manager_Shutdown m w =
     (let w1 = fold (\<lambda>(t, e) v. snd (Effect_Shutdown e v)) (m_effects m) w;
          w2 = release_if (m_samplerState m) w1;
          w3 = release_if (m_shaderResourceView2 m) w2;
          w4 = release_if (m_shaderResourceView1 m) w3;
          w5 = release_if (m_renderTargetView2 m) w4;
          w6 = release_if (m_renderTargetView1 m) w5;
          w7 = release_if (m_renderTarget2 m) w6;
          w8 = release_if (m_renderTarget1 m) w7
      in (m\<lparr>m_effects := [], m_samplerState := nullptr,
            m_shaderResourceView2 := nullptr, m_shaderResourceView1 := nullptr,
            m_renderTargetView2 := nullptr, m_renderTargetView1 := nullptr,
            m_renderTarget2 := nullptr, m_renderTarget1 := nullptr,
            m_device := nullptr\<rparr>, w8))"

text \<open>
  \<^verbatim>\<open>PostProcessManager::AddEffect\<close>. When \<open>Effect_Initialize\<close> fails the local
  \<^verbatim>\<open>unique_ptr\<close> goes out of scope and the destructor shuts the instance down.
\<close>

definition AddEffect :: "PostProcessEffect \<Rightarrow> PostProcessManager \<Rightarrow> world \<Rightarrow> PostProcessManager \<times> world" where
  "AddEffect effectType m w =
     (if map_of (m_effects m) effectType \<noteq> None then (m, w)
      else
        let (ok, effect, w1) =
              Effect_Initialize (m_device m) (m_width m) (m_height m)
                (PostProcessEffect_Base_ctor effectType) w
        in if ok
           then (m\<lparr>m_effectOrder := m_effectOrder m @ [effectType],
                    m_effects := AList.update effectType effect (m_effects m)\<rparr>, w1)
           else (m, snd (Effect_Shutdown effect w1)))"

definition RemoveEffect :: "PostProcessEffect \<Rightarrow> PostProcessManager \<Rightarrow> world \<Rightarrow> PostProcessManager \<times> world" where
  "RemoveEffect effectType m w =
     (case map_of (m_effects m) effectType of
        None \<Rightarrow> (m, w)
      | Some e \<Rightarrow>
          (m\<lparr>m_effects := AList.delete effectType (m_effects m),
             m_effectOrder := remove1 effectType (m_effectOrder m)\<rparr>,
           snd (Effect_Shutdown e w)))"

definition SetEffectEnabled :: "PostProcessEffect \<Rightarrow> bool \<Rightarrow> PostProcessManager \<Rightarrow> PostProcessManager" where
  "SetEffectEnabled effectType enabled m =
     m\<lparr>m_effects := AList.map_entry effectType (\<lambda>e. e\<lparr>m_enabled := enabled\<rparr>) (m_effects m)\<rparr>"

text \<open>
  \<^verbatim>\<open>PostProcessManager::CopyTexture\<close>: the static instance is made and initialised when
  it is still null, the result of its \<^verbatim>\<open>Initialize\<close> is not looked at, and it is applied
  with default parameters.
\<close>

definition CopyTexture :: "PostProcessManager \<Rightarrow> ptr \<Rightarrow> ptr \<Rightarrow> ptr \<Rightarrow> world \<Rightarrow> error + world" where
  "CopyTexture m context input output w =
     (if context = nullptr \<or> input = nullptr \<or> output = nullptr then Inr w
      else
        let (e, w1) =
              (case copyEffect w of
                 Some e \<Rightarrow> (e, w)
               | None \<Rightarrow>
                   let (ok, e, w') =
                         Effect_Initialize (m_device m) (m_width m) (m_height m)
                           (PostProcessEffect_Base_ctor PostProcessEffect_None) w
                   in (e, w'\<lparr>copyEffect := Some e\<rparr>))
        in Apply context input output PostProcessParams_ctor e w1)"

text \<open>
  The \<^verbatim>\<open>for\<close> loop of \<^verbatim>\<open>Process\<close> from index \<open>i\<close> on, with the loop's variables
  \<open>currentInput\<close> and \<open>useRT1\<close>. Inside the loop the list is not empty, so
  \<^verbatim>\<open>m_effectOrder.size() - 1\<close> does not wrap.
\<close>

function Process_loop ::
  "PostProcessManager \<Rightarrow> ptr \<Rightarrow> ptr \<Rightarrow> nat \<Rightarrow> ptr \<Rightarrow> bool \<Rightarrow> world \<Rightarrow> error + world" where
  "Process_loop m context outputTarget i currentInput useRT1 w =
     (if i < length (m_effectOrder m)
      then
        (case map_of (m_effects m) (m_effectOrder m ! i) of
           None \<Rightarrow> Process_loop m context outputTarget (Suc i) currentInput useRT1 w
         | Some e \<Rightarrow>
             if \<not> m_enabled e
             then Process_loop m context outputTarget (Suc i) currentInput useRT1 w
             else
               let currentOutput =
                     (if i = length (m_effectOrder m) - 1 then outputTarget
                      else if useRT1 then m_renderTargetView1 m else m_renderTargetView2 m)
               in (case Apply context currentInput currentOutput (m_parameters m) e w of
                     Inl err \<Rightarrow> Inl err
                   | Inr w' \<Rightarrow>
                       if i < length (m_effectOrder m) - 1
                       then Process_loop m context outputTarget (Suc i)
                              (if useRT1 then m_shaderResourceView1 m else m_shaderResourceView2 m)
                              (\<not> useRT1) w'
                       else Process_loop m context outputTarget (Suc i) currentInput useRT1 w'))
      else Inr w)"
  by pat_completeness auto
termination
  by (relation "measure (\<lambda>(m, context, outputTarget, i, currentInput, useRT1, w).
                           length (m_effectOrder m) - i)") auto

text \<open>\<^verbatim>\<open>PostProcessManager::Process\<close>.\<close>

definition Process :: "PostProcessManager \<Rightarrow> ptr \<Rightarrow> ptr \<Rightarrow> ptr \<Rightarrow> world \<Rightarrow> error + world" where
  "Process m context inputTexture outputTarget w =
     (if context = nullptr \<or> inputTexture = nullptr \<or> outputTarget = nullptr
         \<or> m_effectOrder m = []
      then CopyTexture m context inputTexture outputTarget w
      else
        let w1 = w\<lparr>PSSampler := m_samplerState m\<rparr>
        in case Process_loop m context outputTarget 0 inputTexture True w1 of
             Inl err \<Rightarrow> Inl err
           | Inr w2 \<Rightarrow> Inr (w2\<lparr>PSSampler := nullptr\<rparr>))"

subsection \<open>Initial state\<close>

text \<open>The program before any Direct3D call: nothing created, nothing bound, no static.\<close>

definition world0 :: world where
  "world0 =
     \<lparr> objects = [], allocated = 0, outcomes = [], contents = [],
       OMRenderTarget = nullptr, Viewport = (0, 0), VSShader = nullptr, PSShader = nullptr,
       PSShaderResource = nullptr, PSConstantBuffer = nullptr, PSSampler = nullptr,
       draws = [], copyEffect = None \<rparr>"

subsection \<open>The calls that Process makes\<close>

text \<open>
  The same loop as \<open>Process_loop\<close>, collecting instead of performing: the instance, the
  input and the output of every \<^verbatim>\<open>it->second->Apply(context, currentInput, currentOutput,
  m_parameters)\<close> the loop reaches, in order. \<open>run_calls\<close> performs such a list.
\<close>

function Process_calls ::
  "PostProcessManager \<Rightarrow> ptr \<Rightarrow> nat \<Rightarrow> ptr \<Rightarrow> bool \<Rightarrow> (PostProcessEffect_Base \<times> ptr \<times> ptr) list" where
  "Process_calls m outputTarget i currentInput useRT1 =
     (if i < length (m_effectOrder m)
      then
        (case map_of (m_effects m) (m_effectOrder m ! i) of
           None \<Rightarrow> Process_calls m outputTarget (Suc i) currentInput useRT1
         | Some e \<Rightarrow>
             if \<not> m_enabled e
             then Process_calls m outputTarget (Suc i) currentInput useRT1
             else
               let currentOutput =
                     (if i = length (m_effectOrder m) - 1 then outputTarget
                      else if useRT1 then m_renderTargetView1 m else m_renderTargetView2 m)
               in (e, currentInput, currentOutput)
                  # (if i < length (m_effectOrder m) - 1
                     then Process_calls m outputTarget (Suc i)
                            (if useRT1 then m_shaderResourceView1 m else m_shaderResourceView2 m)
                            (\<not> useRT1)
                     else Process_calls m outputTarget (Suc i) currentInput useRT1))
      else [])"
  by pat_completeness auto
termination
  by (relation "measure (\<lambda>(m, outputTarget, i, currentInput, useRT1).
                           length (m_effectOrder m) - i)") auto

fun run_calls ::
  "ptr \<Rightarrow> PostProcessParams \<Rightarrow> (PostProcessEffect_Base \<times> ptr \<times> ptr) list \<Rightarrow> world \<Rightarrow> error + world" where
  "run_calls context params [] w = Inr w"
| "run_calls context params ((e, inputTexture, outputTarget) # calls) w =
     (case Apply context inputTexture outputTarget params e w of
        Inl err \<Rightarrow> Inl err
      | Inr w' \<Rightarrow> run_calls context params calls w')"

text \<open>The instance a listed type is applied with, if it is applied at all.\<close>

definition enabled_instance :: "PostProcessManager \<Rightarrow> PostProcessEffect \<Rightarrow> PostProcessEffect_Base option" where
  "enabled_instance m t =
     (case map_of (m_effects m) t of
        None \<Rightarrow> None
      | Some e \<Rightarrow> if m_enabled e then Some e else None)"

subsection \<open>Notions the claims use\<close>

text \<open>An instance with both shaders and the parameter buffer.\<close>

definition fully_initialized :: "PostProcessEffect_Base \<Rightarrow> bool" where
  "fully_initialized e \<longleftrightarrow>
     m_vertexShader e \<noteq> nullptr \<and> m_pixelShader e \<noteq> nullptr \<and> m_parameterBuffer e \<noteq> nullptr"

text \<open>Every live address was handed out by the device.\<close>

definition well_formed :: "world \<Rightarrow> bool" where
  "well_formed w \<longleftrightarrow> (\<forall>(p, ob) \<in> set (objects w). p \<le> allocated w)"

fun is_texture :: "object \<Rightarrow> bool" where
  "is_texture (Texture2D d) = True"
| "is_texture ob = False"

text \<open>The textures the device holds.\<close>

definition textures :: "world \<Rightarrow> (ptr \<times> object) list" where
  "textures w = filter (\<lambda>(p, ob). is_texture ob) (objects w)"

text \<open>\<^verbatim>\<open>AddEffect(D); AddEffect(D);\<close>\<close>

definition AddEffect_twice :: "PostProcessEffect \<Rightarrow> PostProcessManager \<Rightarrow> world \<Rightarrow> PostProcessManager \<times> world" where
  "AddEffect_twice effectType m w =
     (case AddEffect effectType m w of (m1, w1) \<Rightarrow> AddEffect effectType m1 w1)"

text \<open>
  A manager initialised at 1280 by 720 on the device at address 1, as the demo application
  does, and the world after that.
\<close>

definition manager_1280x720 :: PostProcessManager where
  "manager_1280x720 = fst (snd (Manager_Initialize 1 1280 720 PostProcessManager_ctor world0))"

definition world_1280x720 :: world where
  "world_1280x720 = snd (snd (Manager_Initialize 1 1280 720 PostProcessManager_ctor world0))"

text \<open>
  The chain the demo application sets up: Bloom, ToneMapping and Vignette added in that
  order to the manager above.
\<close>

definition demo_setup :: "PostProcessManager \<times> world" where
  "demo_setup =
     (case AddEffect Bloom manager_1280x720 world_1280x720 of
        (m1, w1) \<Rightarrow>
          (case AddEffect ToneMapping m1 w1 of
             (m2, w2) \<Rightarrow> AddEffect Vignette m2 w2))"

text \<open>
  Two managers in one program: the first, at 1280 by 720 and with no effect added, processes
  a frame; then a second is initialised at 640 by 480 on the same device and processes a
  frame too. The context, the input texture and the output target are at the addresses 1000,
  1001 and 1002.
\<close>

definition first_copy :: "error + world" where
  "first_copy = Process manager_1280x720 1000 1001 1002 world_1280x720"

definition second_manager :: "bool \<times> PostProcessManager \<times> world" where
  "second_manager = Manager_Initialize 1 640 480 PostProcessManager_ctor (projr first_copy)"

definition second_copy :: "error + world" where
  "second_copy = Process (fst (snd second_manager)) 1000 1001 1002 (snd (snd second_manager))"

text \<open>
  How many of the next \<open>k\<close> fallible calls succeed before the first one that fails, by the
  outcomes still to come.
\<close>

fun leading_successes :: "nat \<Rightarrow> bool list \<Rightarrow> nat" where
  "leading_successes 0 os = 0"
| "leading_successes (Suc k) [] = Suc k"
| "leading_successes (Suc k) (ok # os) = (if ok then Suc (leading_successes k os) else 0)"

text \<open>
  The six members \<open>CreateRenderTargets\<close> assigns, in the order of its creations, and the
  objects those creations make on a device that has handed out \<open>a\<close> addresses so far.
\<close>

definition render_target_members :: "PostProcessManager \<Rightarrow> ptr list" where
  "render_target_members m =
     [m_renderTarget1 m, m_renderTargetView1 m, m_shaderResourceView1 m,
      m_renderTarget2 m, m_renderTargetView2 m, m_shaderResourceView2 m]"

definition render_target_objects :: "PostProcessManager \<Rightarrow> nat \<Rightarrow> (ptr \<times> object) list" where
  "render_target_objects m a =
     [(a + 1, Texture2D (textureDesc m)),
      (a + 2, RenderTargetView (a + 1)),
      (a + 3, ShaderResourceView (a + 1)),
      (a + 4, Texture2D (textureDesc m)),
      (a + 5, RenderTargetView (a + 4)),
      (a + 6, ShaderResourceView (a + 4))]"

text \<open>
  A manager that was shut down and initialised again: Bloom added to the manager above,
  then \<^verbatim>\<open>Shutdown()\<close>, then \<^verbatim>\<open>Initialize(device, 1280, 720)\<close> once more.
\<close>

definition restarted_setup :: "PostProcessManager \<times> world" where
  "restarted_setup =
     (case AddEffect Bloom manager_1280x720 world_1280x720 of
        (m1, w1) \<Rightarrow>
          (case Manager_Shutdown m1 w1 of
             (m2, w2) \<Rightarrow> snd (Manager_Initialize 1 1280 720 m2 w2)))"

section \<open>Properties\<close>

subsection \<open>The device\<close>

lemma create_cases:
  assumes "create ob w = (p, w')"
  shows "(p = nullptr \<and> objects w' = objects w \<and> allocated w' = allocated w)
       \<or> (p = Suc (allocated w) \<and> objects w' = objects w @ [(p, ob)] \<and> allocated w' = p)"
  using assms by (auto simp: create_def next_outcome_def Let_def split: list.splits if_splits)

lemma create_objects:
  assumes "create ob w = (p, w')"
  shows "objects w' = (if p = nullptr then objects w else objects w @ [(p, ob)])"
  using create_cases [OF assms] by auto

subsection \<open>What Initialize of an effect creates\<close>

lemma GetPixelShaderCode_type [simp]:
  "GetPixelShaderCode (e\<lparr>m_effectWidth := a, m_effectHeight := b, m_vertexShader := v\<rparr>)
     = GetPixelShaderCode e"
  by (simp add: GetPixelShaderCode_def)

lemma Effect_Initialize_objects:
  assumes "Effect_Initialize device width height e w = (ok, e', w')"
  shows "\<exists>new. objects w' = objects w @ new
           \<and> set new \<subseteq> {(m_vertexShader e', ShaderObject Vertex FULLSCREEN_QUAD_VS),
                          (m_pixelShader e', ShaderObject Pixel (GetPixelShaderCode e)),
                          (m_parameterBuffer e', Buffer parameter_buffer_desc)}
           \<and> (ok \<longrightarrow> (m_parameterBuffer e', Buffer parameter_buffer_desc) \<in> set new)"
proof (cases "device = nullptr")
  case True
  with assms show ?thesis by (simp add: Effect_Initialize_def)
next
  case dev: False
  obtain vs w1 where c1: "create (ShaderObject Vertex FULLSCREEN_QUAD_VS) w = (vs, w1)"
    by (cases "create (ShaderObject Vertex FULLSCREEN_QUAD_VS) w")
  obtain ps w2 where c2: "create (ShaderObject Pixel (GetPixelShaderCode e)) w1 = (ps, w2)"
    by (cases "create (ShaderObject Pixel (GetPixelShaderCode e)) w1")
  obtain buf w3 where c3: "create (Buffer parameter_buffer_desc) w2 = (buf, w3)"
    by (cases "create (Buffer parameter_buffer_desc) w2")
  note o1 = create_objects [OF c1] and o2 = create_objects [OF c2] and o3 = create_objects [OF c3]
  show ?thesis
  proof (cases "vs = nullptr")
    case True
    with assms dev c1 have "w' = w1" "m_vertexShader e' = vs" "\<not> ok"
      by (auto simp add: Effect_Initialize_def CreateVertexShaderFromString_def Let_def)
    with o1 True show ?thesis by simp
  next
    case vs: False
    show ?thesis
    proof (cases "ps = nullptr")
      case True
      with assms dev vs c1 c2
      have "w' = w2" "m_vertexShader e' = vs" "m_pixelShader e' = ps" "\<not> ok"
        by (auto simp add: Effect_Initialize_def CreateVertexShaderFromString_def
            CreatePixelShaderFromString_def Let_def)
      with o1 o2 vs True show ?thesis by simp
    next
      case ps: False
      from assms dev vs ps c1 c2 c3
      have r: "w' = w3" "m_vertexShader e' = vs" "m_pixelShader e' = ps"
        "m_parameterBuffer e' = buf" "ok = (buf \<noteq> nullptr)"
        by (auto simp add: Effect_Initialize_def CreateVertexShaderFromString_def
            CreatePixelShaderFromString_def Let_def split: if_splits)
      with o1 o2 o3 vs ps show ?thesis by auto
    qed
  qed
qed

subsection \<open>The size of the parameter buffer\<close>

lemma round_up_16:
  fixes n :: nat
  shows "16 dvd (n + 15) div 16 * 16" and "n \<le> (n + 15) div 16 * 16"
    and "16 dvd k \<Longrightarrow> n \<le> k \<Longrightarrow> (n + 15) div 16 * 16 \<le> k"
proof -
  show "16 dvd (n + 15) div 16 * 16" by simp
  have "n + 15 = (n + 15) div 16 * 16 + (n + 15) mod 16"
    by simp
  moreover have "(n + 15) mod 16 < 16"
    by simp
  ultimately show "n \<le> (n + 15) div 16 * 16"
    by linarith
  assume "16 dvd k" and nk: "n \<le> k"
  then obtain j where k: "k = 16 * j" by (auto simp: dvd_def)
  from nk k have "(n + 15) div 16 \<le> (16 * j + 15) div 16"
    by (intro div_le_mono) simp
  also have "(16 * j + 15) div 16 = j"
    by simp
  finally show "(n + 15) div 16 * 16 \<le> k"
    using k by simp
qed

lemma sizeof_PostProcessParams_value: "unat sizeof_PostProcessParams = 96"
  by (simp add: sizeof_PostProcessParams_def PostProcessParams_members_def)

lemma GetParameterBufferSize_value: "unat GetParameterBufferSize = 96"
  by (simp add: GetParameterBufferSize_def sizeof_PostProcessParams_def
      PostProcessParams_members_def)

text \<open>
  C9. \<^verbatim>\<open>GetParameterBufferSize\<close> is \<^verbatim>\<open>sizeof(PostProcessParams)\<close> (96 bytes) rounded
  up to a multiple of 16 by \<open>((n + 15) / 16) * 16\<close>, without wrap-around: it is a multiple of
  16, not below the size of the block, and no multiple of 16 that holds the block is
  smaller. Every buffer that \<open>Effect_Initialize\<close> creates is the parameter buffer of the
  instance and has that byte width, and a successful \<open>Effect_Initialize\<close> has created it.
\<close>

theorem parameter_buffer_size:
  assumes "Effect_Initialize device width height e w = (ok, e', w')"
  shows "unat GetParameterBufferSize = (unat sizeof_PostProcessParams + 15) div 16 * 16
       \<and> unat GetParameterBufferSize = 96
       \<and> 16 dvd unat GetParameterBufferSize
       \<and> unat sizeof_PostProcessParams \<le> unat GetParameterBufferSize
       \<and> (\<forall>k. 16 dvd k \<and> unat sizeof_PostProcessParams \<le> k
              \<longrightarrow> unat GetParameterBufferSize \<le> k)
       \<and> ByteWidth parameter_buffer_desc = GetParameterBufferSize
       \<and> (ok \<longrightarrow> (m_parameterBuffer e', Buffer parameter_buffer_desc) \<in> set (objects w'))
       \<and> (\<forall>p d. (p, Buffer d) \<in> set (objects w') \<and> (p, Buffer d) \<notin> set (objects w)
              \<longrightarrow> p = m_parameterBuffer e' \<and> ByteWidth d = GetParameterBufferSize)"
proof -
  have eq: "unat GetParameterBufferSize = (unat sizeof_PostProcessParams + 15) div 16 * 16"
    by (simp add: GetParameterBufferSize_value sizeof_PostProcessParams_value)
  have dv: "16 dvd unat GetParameterBufferSize"
    unfolding eq by (rule round_up_16(1))
  have le: "unat sizeof_PostProcessParams \<le> unat GetParameterBufferSize"
    unfolding eq by (rule round_up_16(2))
  have least: "\<forall>k. 16 dvd k \<and> unat sizeof_PostProcessParams \<le> k
                  \<longrightarrow> unat GetParameterBufferSize \<le> k"
    unfolding eq using round_up_16(3) by blast
  have bw: "ByteWidth parameter_buffer_desc = GetParameterBufferSize"
    by (simp add: parameter_buffer_desc_def)
  from Effect_Initialize_objects [OF assms] obtain new where
    new: "objects w' = objects w @ new"
      "set new \<subseteq> {(m_vertexShader e', ShaderObject Vertex FULLSCREEN_QUAD_VS),
                    (m_pixelShader e', ShaderObject Pixel (GetPixelShaderCode e)),
                    (m_parameterBuffer e', Buffer parameter_buffer_desc)}"
      "ok \<longrightarrow> (m_parameterBuffer e', Buffer parameter_buffer_desc) \<in> set new"
    by blast
  have made: "ok \<longrightarrow> (m_parameterBuffer e', Buffer parameter_buffer_desc) \<in> set (objects w')"
    using new(1,3) by simp
  have all: "\<forall>p d. (p, Buffer d) \<in> set (objects w') \<and> (p, Buffer d) \<notin> set (objects w)
                  \<longrightarrow> p = m_parameterBuffer e' \<and> ByteWidth d = GetParameterBufferSize"
    using new(1,2) bw by auto
  from eq GetParameterBufferSize_value dv le least bw made all show ?thesis by blast
qed

theorem parameter_buffer_size_witness:
  "fst (Effect_Initialize 1 1280 720 (PostProcessEffect_Base_ctor Grayscale) world0)
   \<and> (m_parameterBuffer
         (fst (snd (Effect_Initialize 1 1280 720 (PostProcessEffect_Base_ctor Grayscale) world0))),
       Buffer parameter_buffer_desc)
      \<in> set (objects
           (snd (snd (Effect_Initialize 1 1280 720 (PostProcessEffect_Base_ctor Grayscale) world0))))
   \<and> unat (ByteWidth parameter_buffer_desc) = 96"
proof -
  have ok: "fst (Effect_Initialize 1 1280 720 (PostProcessEffect_Base_ctor Grayscale) world0)"
    by (simp add: Effect_Initialize_def CreateVertexShaderFromString_def
        CreatePixelShaderFromString_def create_def next_outcome_def world0_def Let_def)
  have eq: "Effect_Initialize 1 1280 720 (PostProcessEffect_Base_ctor Grayscale) world0
      = (fst (Effect_Initialize 1 1280 720 (PostProcessEffect_Base_ctor Grayscale) world0),
         fst (snd (Effect_Initialize 1 1280 720 (PostProcessEffect_Base_ctor Grayscale) world0)),
         snd (snd (Effect_Initialize 1 1280 720 (PostProcessEffect_Base_ctor Grayscale) world0)))"
    by simp
  from parameter_buffer_size [OF eq] ok show ?thesis by simp
qed

lemma update_absent:
  "map_of al k = None \<Longrightarrow> AList.update k v al = al @ [(k, v)]"
  by (induction al) (auto split: if_splits)

lemma count_absent:
  "map_of al k = None \<Longrightarrow> count_list (map fst al) k = 0"
  by (induction al) (auto split: if_splits)

lemma Effect_Initialize_result:
  assumes "Effect_Initialize device width height e w = (ok, e', w')"
  shows "(ok \<longrightarrow> fully_initialized e' \<and> device \<noteq> nullptr)
       \<and> (\<not> ok \<and> \<not> fully_initialized e \<longrightarrow> \<not> fully_initialized e')
       \<and> m_type e' = m_type e \<and> m_enabled e' = m_enabled e
       \<and> (device \<noteq> nullptr \<longrightarrow> m_effectWidth e' = width \<and> m_effectHeight e' = height)"
proof (cases "device = nullptr")
  case True
  with assms show ?thesis by (auto simp add: Effect_Initialize_def)
next
  case dev: False
  obtain vs w1 where c1: "create (ShaderObject Vertex FULLSCREEN_QUAD_VS) w = (vs, w1)"
    by (cases "create (ShaderObject Vertex FULLSCREEN_QUAD_VS) w")
  obtain ps w2 where c2: "create (ShaderObject Pixel (GetPixelShaderCode e)) w1 = (ps, w2)"
    by (cases "create (ShaderObject Pixel (GetPixelShaderCode e)) w1")
  obtain buf w3 where c3: "create (Buffer parameter_buffer_desc) w2 = (buf, w3)"
    by (cases "create (Buffer parameter_buffer_desc) w2")
  from assms dev c1 c2 c3 show ?thesis
    by (auto simp add: Effect_Initialize_def CreateVertexShaderFromString_def
        CreatePixelShaderFromString_def fully_initialized_def Let_def split: if_splits)
qed

lemma ctor_not_initialized: "\<not> fully_initialized (PostProcessEffect_Base_ctor D)"
  by (simp add: fully_initialized_def PostProcessEffect_Base_ctor_def)

subsection \<open>AddEffect\<close>

text \<open>
  C5, as the code has it. \<open>AddEffect\<close> of an active type changes nothing, and a second
  \<open>AddEffect\<close> in a row changes nothing whenever the first left the type active. When the
  type is in neither the map nor the order list and the instance initialises, two calls in
  a row leave exactly one instance and exactly one order entry. When the type is not active
  and the instance does not initialise, the call adds nothing: the manager is as it was.
\<close>

theorem AddEffect_idempotent:
  "(map_of (m_effects m) D \<noteq> None \<longrightarrow> AddEffect D m w = (m, w))
   \<and> (map_of (m_effects (fst (AddEffect D m w))) D \<noteq> None
        \<longrightarrow> AddEffect_twice D m w = AddEffect D m w)
   \<and> (map_of (m_effects m) D = None \<and> D \<notin> set (m_effectOrder m)
        \<and> fst (Effect_Initialize (m_device m) (m_width m) (m_height m)
                 (PostProcessEffect_Base_ctor D) w)
        \<longrightarrow> count_list (map fst (m_effects (fst (AddEffect_twice D m w)))) D = 1
          \<and> count_list (m_effectOrder (fst (AddEffect_twice D m w))) D = 1)
   \<and> (map_of (m_effects m) D = None
        \<and> \<not> fst (Effect_Initialize (m_device m) (m_width m) (m_height m)
                   (PostProcessEffect_Base_ctor D) w)
        \<longrightarrow> fst (AddEffect D m w) = m)"
proof -
  have d: "fst (AddEffect D m w) = m"
    if "map_of (m_effects m) D = None"
      and "\<not> fst (Effect_Initialize (m_device m) (m_width m) (m_height m)
                   (PostProcessEffect_Base_ctor D) w)"
    using that
    by (cases "Effect_Initialize (m_device m) (m_width m) (m_height m)
                 (PostProcessEffect_Base_ctor D) w") (simp add: AddEffect_def)
  have a: "map_of (m_effects m') D \<noteq> None \<longrightarrow> AddEffect D m' w' = (m', w')" for m' w'
    by (simp add: AddEffect_def)
  have b: "map_of (m_effects (fst (AddEffect D m w))) D \<noteq> None
        \<longrightarrow> AddEffect_twice D m w = AddEffect D m w"
    using a by (cases "AddEffect D m w") (simp add: AddEffect_twice_def)
  have c: "count_list (map fst (m_effects (fst (AddEffect_twice D m w)))) D = 1
          \<and> count_list (m_effectOrder (fst (AddEffect_twice D m w))) D = 1"
    if absent: "map_of (m_effects m) D = None" and order: "D \<notin> set (m_effectOrder m)"
      and ok: "fst (Effect_Initialize (m_device m) (m_width m) (m_height m)
                 (PostProcessEffect_Base_ctor D) w)"
  proof -
    obtain e w1 where init: "Effect_Initialize (m_device m) (m_width m) (m_height m)
                 (PostProcessEffect_Base_ctor D) w = (True, e, w1)"
      using ok by (cases "Effect_Initialize (m_device m) (m_width m) (m_height m)
                 (PostProcessEffect_Base_ctor D) w") auto
    have first: "AddEffect D m w =
        (m\<lparr>m_effectOrder := m_effectOrder m @ [D], m_effects := m_effects m @ [(D, e)]\<rparr>, w1)"
      using absent init by (simp add: AddEffect_def update_absent)
    have twice: "AddEffect_twice D m w = AddEffect D m w"
      using b first by (simp add: map_of_append)
    show ?thesis
      using absent order by (simp add: twice first count_absent)
  qed
  from a b c d show ?thesis by blast
qed


subsection \<open>Evaluating the example manager\<close>

lemmas device_defs =
  create_def next_outcome_def release_def release_if_def Let_def
  CreateVertexShaderFromString_def CreatePixelShaderFromString_def

lemma Manager_Initialize_world0:
  "Manager_Initialize 1 1280 720 PostProcessManager_ctor world0 =
     (True,
      PostProcessManager_ctor
        \<lparr>m_device := 1, m_width := 1280, m_height := 720,
         m_renderTarget1 := 1, m_renderTargetView1 := 2, m_shaderResourceView1 := 3,
         m_renderTarget2 := 4, m_renderTargetView2 := 5, m_shaderResourceView2 := 6,
         m_samplerState := 7\<rparr>,
      world0
        \<lparr>objects :=
           [(1, Texture2D \<lparr>Width = 1280, Height = 720, Format = DXGI_FORMAT_R8G8B8A8_UNORM,
                TextureBindFlags = [D3D11_BIND_RENDER_TARGET, D3D11_BIND_SHADER_RESOURCE]\<rparr>),
            (2, RenderTargetView 1), (3, ShaderResourceView 1),
            (4, Texture2D \<lparr>Width = 1280, Height = 720, Format = DXGI_FORMAT_R8G8B8A8_UNORM,
                TextureBindFlags = [D3D11_BIND_RENDER_TARGET, D3D11_BIND_SHADER_RESOURCE]\<rparr>),
            (5, RenderTargetView 4), (6, ShaderResourceView 4), (7, SamplerState)],
         allocated := 7\<rparr>)"
  by (simp add: Manager_Initialize_def CreateRenderTargets_def textureDesc_def device_defs
      PostProcessManager_ctor_def world0_def)

lemma manager_1280x720_fields:
  "m_device manager_1280x720 = 1" "m_width manager_1280x720 = 1280"
  "m_height manager_1280x720 = 720" "m_effects manager_1280x720 = []"
  "m_effectOrder manager_1280x720 = []"
  "m_renderTargetView1 manager_1280x720 = 2" "m_renderTargetView2 manager_1280x720 = 5"
  "m_shaderResourceView1 manager_1280x720 = 3" "m_shaderResourceView2 manager_1280x720 = 6"
  "m_samplerState manager_1280x720 = 7"
  unfolding manager_1280x720_def Manager_Initialize_world0
  by (simp_all add: PostProcessManager_ctor_def)

lemma world_1280x720_fields:
  "allocated world_1280x720 = 7" "outcomes world_1280x720 = []"
  "draws world_1280x720 = []" "copyEffect world_1280x720 = None"
  unfolding world_1280x720_def Manager_Initialize_world0
  by (simp_all add: world0_def)

subsection \<open>The loop of Process and the calls it makes\<close>

declare Process_loop.simps [simp del] Process_calls.simps [simp del]

lemma Process_loop_calls:
  "Process_loop m ctx outputTarget i currentInput useRT1 w =
     run_calls ctx (m_parameters m) (Process_calls m outputTarget i currentInput useRT1) w"
proof (induction m ctx outputTarget i currentInput useRT1 w rule: Process_loop.induct)
  case (1 m ctx outputTarget i currentInput useRT1 w)
  show ?case
  proof (cases "i < length (m_effectOrder m)")
    case False
    then show ?thesis
      by (subst Process_loop.simps, subst Process_calls.simps) simp
  next
    case less: True
    show ?thesis
    proof (cases "enabled_instance m (m_effectOrder m ! i)")
      case None
      then have skip: "map_of (m_effects m) (m_effectOrder m ! i) = None
          \<or> (\<exists>e. map_of (m_effects m) (m_effectOrder m ! i) = Some e \<and> \<not> m_enabled e)"
        by (auto simp: enabled_instance_def split: option.splits if_splits)
      then show ?thesis
        using less "1.IH"(1,2)
        by (subst Process_loop.simps, subst Process_calls.simps) auto
    next
      case (Some e)
      then have e: "map_of (m_effects m) (m_effectOrder m ! i) = Some e" "m_enabled e"
        by (auto simp: enabled_instance_def split: option.splits if_splits)
      show ?thesis
        using less e "1.IH"(3,4)
        by (subst Process_loop.simps, subst Process_calls.simps)
           (auto simp: Let_def split: sum.splits)
    qed
  qed
qed


lemma Process_calls_end:
  "length (m_effectOrder m) \<le> i \<Longrightarrow> Process_calls m outputTarget i currentInput useRT1 = []"
  by (subst Process_calls.simps) simp

lemma enabled_instance_None:
  "enabled_instance m t = None \<longleftrightarrow>
     map_of (m_effects m) t = None \<or> (\<exists>e. map_of (m_effects m) t = Some e \<and> \<not> m_enabled e)"
  by (cases "map_of (m_effects m) t") (simp_all add: enabled_instance_def)

lemma enabled_instance_Some:
  "enabled_instance m t = Some e \<longleftrightarrow> map_of (m_effects m) t = Some e \<and> m_enabled e"
  by (cases "map_of (m_effects m) t") (auto simp add: enabled_instance_def)

lemma Process_calls_skip:
  assumes "i < length (m_effectOrder m)" and "enabled_instance m (m_effectOrder m ! i) = None"
  shows "Process_calls m outputTarget i currentInput useRT1 =
     Process_calls m outputTarget (Suc i) currentInput useRT1"
proof -
  from assms(2) consider "map_of (m_effects m) (m_effectOrder m ! i) = None"
    | e where "map_of (m_effects m) (m_effectOrder m ! i) = Some e" "\<not> m_enabled e"
    by (auto simp add: enabled_instance_None)
  then show ?thesis
  proof cases
    case 1
    with assms(1) show ?thesis
      by (subst Process_calls.simps [of m outputTarget i]) simp
  next
    case 2
    with assms(1) show ?thesis
      by (subst Process_calls.simps [of m outputTarget i]) simp
  qed
qed

lemma Process_calls_last:
  assumes "Suc i = length (m_effectOrder m)"
    and "enabled_instance m (m_effectOrder m ! i) = Some e"
  shows "Process_calls m outputTarget i currentInput useRT1 = [(e, currentInput, outputTarget)]"
proof -
  from assms(1) have len: "length (m_effectOrder m) = Suc i"
    by simp
  from assms(2) have e: "map_of (m_effects m) (m_effectOrder m ! i) = Some e" "m_enabled e"
    by (simp_all add: enabled_instance_Some)
  have rest: "Process_calls m outputTarget (Suc i) currentInput useRT1 = []"
    by (simp add: Process_calls_end len)
  show ?thesis
    using e rest by (subst Process_calls.simps [of m outputTarget i]) (simp add: len)
qed

lemma Process_calls_inner:
  assumes "Suc i < length (m_effectOrder m)"
    and "enabled_instance m (m_effectOrder m ! i) = Some e"
  shows "Process_calls m outputTarget i currentInput useRT1 =
     (e, currentInput, if useRT1 then m_renderTargetView1 m else m_renderTargetView2 m)
     # Process_calls m outputTarget (Suc i)
         (if useRT1 then m_shaderResourceView1 m else m_shaderResourceView2 m) (\<not> useRT1)"
proof -
  from assms(2) have e: "map_of (m_effects m) (m_effectOrder m ! i) = Some e" "m_enabled e"
    by (simp_all add: enabled_instance_Some)
  from assms(1) have i: "i < length (m_effectOrder m)" "i \<noteq> length (m_effectOrder m) - 1"
    "i < length (m_effectOrder m) - 1"
    by simp_all
  show ?thesis
    using e i by (subst Process_calls.simps [of m outputTarget i]) simp
qed

lemma Process_calls_cases:
  obtains (at_end) "length (m_effectOrder m) \<le> i"
  | (skipped) "i < length (m_effectOrder m)" "enabled_instance m (m_effectOrder m ! i) = None"
  | (final) e where "Suc i = length (m_effectOrder m)"
      "enabled_instance m (m_effectOrder m ! i) = Some e"
  | (inner) e where "Suc i < length (m_effectOrder m)"
      "enabled_instance m (m_effectOrder m ! i) = Some e"
  by (cases "enabled_instance m (m_effectOrder m ! i)") (fastforce, force)

lemma Process_calls_instances:
  "map fst (Process_calls m outputTarget i currentInput useRT1) =
     List.map_filter (enabled_instance m) (drop i (m_effectOrder m))"
proof (induction "length (m_effectOrder m) - i" arbitrary: i currentInput useRT1)
  case 0
  then show ?case by (simp add: Process_calls_end map_filter_simps)
next
  case (Suc n)
  then have less: "i < length (m_effectOrder m)" and n: "n = length (m_effectOrder m) - Suc i"
    by simp_all
  have drop: "drop i (m_effectOrder m) = m_effectOrder m ! i # drop (Suc i) (m_effectOrder m)"
    using less by (simp add: Cons_nth_drop_Suc)
  show ?case
  proof (cases m i rule: Process_calls_cases)
    case at_end
    with less show ?thesis by simp
  next
    case skipped
    then show ?thesis
      using Suc.hyps(1) [OF n] by (simp add: Process_calls_skip drop map_filter_simps)
  next
    case (final e)
    then show ?thesis
      by (simp add: Process_calls_last drop map_filter_simps)
  next
    case (inner e)
    then show ?thesis
      using Suc.hyps(1) [OF n] by (simp add: Process_calls_inner drop map_filter_simps)
  qed
qed

lemma Process_calls_first:
  "Process_calls m outputTarget i currentInput useRT1 \<noteq> [] \<Longrightarrow>
   fst (snd (hd (Process_calls m outputTarget i currentInput useRT1))) = currentInput"
proof (induction "length (m_effectOrder m) - i" arbitrary: i)
  case 0
  then show ?case by (simp add: Process_calls_end)
next
  case (Suc n)
  then have n: "n = length (m_effectOrder m) - Suc i"
    by simp
  show ?case
  proof (cases m i rule: Process_calls_cases)
    case at_end
    with Suc.prems show ?thesis by (simp add: Process_calls_end)
  next
    case skipped
    then show ?thesis
      using Suc.hyps(1) [OF n] Suc.prems by (simp add: Process_calls_skip)
  next
    case (final e)
    then show ?thesis by (simp add: Process_calls_last)
  next
    case (inner e)
    then show ?thesis by (simp add: Process_calls_inner)
  qed
qed

lemma Process_calls_alternate:
  "Suc k < length (Process_calls m outputTarget i currentInput useRT1) \<Longrightarrow>
   snd (snd (Process_calls m outputTarget i currentInput useRT1 ! k)) =
     (if useRT1 = even k then m_renderTargetView1 m else m_renderTargetView2 m)
   \<and> fst (snd (Process_calls m outputTarget i currentInput useRT1 ! Suc k)) =
     (if useRT1 = even k then m_shaderResourceView1 m else m_shaderResourceView2 m)"
proof (induction "length (m_effectOrder m) - i" arbitrary: i k currentInput useRT1)
  case 0
  then show ?case by (simp add: Process_calls_end)
next
  case (Suc n)
  then have n: "n = length (m_effectOrder m) - Suc i"
    by simp
  show ?case
  proof (cases m i rule: Process_calls_cases)
    case at_end
    with Suc.prems show ?thesis by (simp add: Process_calls_end)
  next
    case skipped
    then show ?thesis
      using Suc.hyps(1) [OF n] Suc.prems by (simp add: Process_calls_skip)
  next
    case (final e)
    with Suc.prems show ?thesis by (simp add: Process_calls_last)
  next
    case (inner e)
    let ?rest = "Process_calls m outputTarget (Suc i)
         (if useRT1 then m_shaderResourceView1 m else m_shaderResourceView2 m) (\<not> useRT1)"
    have eq: "Process_calls m outputTarget i currentInput useRT1 =
        (e, currentInput, if useRT1 then m_renderTargetView1 m else m_renderTargetView2 m) # ?rest"
      using inner by (rule Process_calls_inner)
    show ?thesis
    proof (cases k)
      case 0
      with Suc.prems eq have "?rest \<noteq> []" by auto
      from Process_calls_first [OF this] 0 eq \<open>?rest \<noteq> []\<close> show ?thesis
        by (simp add: hd_conv_nth)
    next
      case (Suc k')
      with Suc.prems eq have "Suc k' < length ?rest" by simp
      from Suc.hyps(1) [OF n this] Suc eq show ?thesis by auto
    qed
  qed
qed

lemma Process_calls_targets:
  "(e, a, b) \<in> set (Process_calls m outputTarget i currentInput useRT1) \<Longrightarrow>
   a \<in> {currentInput, m_shaderResourceView1 m, m_shaderResourceView2 m}
   \<and> b \<in> {outputTarget, m_renderTargetView1 m, m_renderTargetView2 m}"
proof (induction "length (m_effectOrder m) - i" arbitrary: i currentInput useRT1)
  case 0
  then show ?case by (simp add: Process_calls_end)
next
  case (Suc n)
  then have n: "n = length (m_effectOrder m) - Suc i"
    by simp
  show ?case
  proof (cases m i rule: Process_calls_cases)
    case at_end
    with Suc.prems show ?thesis by (simp add: Process_calls_end)
  next
    case skipped
    then show ?thesis
      using Suc.hyps(1) [OF n] Suc.prems by (simp add: Process_calls_skip)
  next
    case (final e)
    with Suc.prems show ?thesis by (simp add: Process_calls_last)
  next
    case (inner e')
    with Suc.prems Suc.hyps(1) [OF n] show ?thesis
      by (fastforce simp add: Process_calls_inner split: if_splits)
  qed
qed

subsection \<open>What the device calls and Apply leave alone\<close>

lemma next_outcome_eq:
  "next_outcome w = (case outcomes w of [] \<Rightarrow> True | ok # rest \<Rightarrow> ok, w\<lparr>outcomes := tl (outcomes w)\<rparr>)"
  by (simp add: next_outcome_def split: list.splits)

lemma create_eq:
  "create ob w =
     (if (case outcomes w of [] \<Rightarrow> True | ok # rest \<Rightarrow> ok)
      then (Suc (allocated w),
            w\<lparr>outcomes := tl (outcomes w),
              objects := objects w @ [(Suc (allocated w), ob)],
              allocated := Suc (allocated w)\<rparr>)
      else (nullptr, w\<lparr>outcomes := tl (outcomes w)\<rparr>))"
  by (simp add: create_def next_outcome_eq)

lemma create_fields:
  assumes "create ob w = (p, w')"
  shows "copyEffect w' = copyEffect w" "draws w' = draws w" "contents w' = contents w"
    "OMRenderTarget w' = OMRenderTarget w" "Viewport w' = Viewport w"
    "VSShader w' = VSShader w" "PSShader w' = PSShader w"
    "PSShaderResource w' = PSShaderResource w" "PSConstantBuffer w' = PSConstantBuffer w"
    "PSSampler w' = PSSampler w" "outcomes w' = tl (outcomes w)"
    "allocated w \<le> allocated w'"
  using assms by (auto simp: create_eq split: if_splits)

lemma create_well_formed:
  assumes "create ob w = (p, w')" and "well_formed w"
  shows "well_formed w'"
  using assms by (fastforce simp: create_eq well_formed_def split: if_splits)

lemma release_fields [simp]:
  "copyEffect (release p w) = copyEffect w" "draws (release p w) = draws w"
  "allocated (release p w) = allocated w" "outcomes (release p w) = outcomes w"
  by (simp_all add: release_def)

lemma release_well_formed: "well_formed w \<Longrightarrow> well_formed (release p w)"
  by (auto simp: release_def well_formed_def)

lemma UpdateParameterBuffer_fields [simp]:
  "objects (UpdateParameterBuffer c params e w) = objects w"
  "allocated (UpdateParameterBuffer c params e w) = allocated w"
  "copyEffect (UpdateParameterBuffer c params e w) = copyEffect w"
  "draws (UpdateParameterBuffer c params e w) = draws w"
  "outcomes w = [] \<Longrightarrow> outcomes (UpdateParameterBuffer c params e w) = []"
  by (simp_all add: UpdateParameterBuffer_def next_outcome_eq Let_def split: list.splits)

lemma Shader_Bind_fields [simp]:
  "objects (Shader_Bind s c w) = objects w"
  "allocated (Shader_Bind s c w) = allocated w"
  "copyEffect (Shader_Bind s c w) = copyEffect w"
  "draws (Shader_Bind s c w) = draws w"
  "outcomes (Shader_Bind s c w) = outcomes w"
  "OMRenderTarget (Shader_Bind s c w) = OMRenderTarget w"
  "Viewport (Shader_Bind s c w) = Viewport w"
  "PSShaderResource (Shader_Bind s c w) = PSShaderResource w"
  "PSConstantBuffer (Shader_Bind s c w) = PSConstantBuffer w"
  by (simp_all add: Shader_Bind_def split: option.splits object.splits ShaderType.splits)

lemma DrawFullscreenQuad_fields [simp]:
  "copyEffect (DrawFullscreenQuad c w) = copyEffect w"
  "allocated w \<le> allocated (DrawFullscreenQuad c w)"
  by (simp_all add: DrawFullscreenQuad_def create_eq release_def)

lemma DrawFullscreenQuad_objects:
  assumes "well_formed w"
  shows "objects (DrawFullscreenQuad c w) = objects w"
proof -
  have "filter (\<lambda>(q, ob). q \<noteq> Suc (allocated w)) (objects w) = objects w"
    using assms by (auto simp: well_formed_def intro!: filter_True)
  then show ?thesis
    by (simp add: DrawFullscreenQuad_def create_eq release_def)
qed

lemma DrawFullscreenQuad_draws:
  "outcomes w = [] \<Longrightarrow> draws (DrawFullscreenQuad c w) = draws w @ [the_draw w]"
  by (simp add: DrawFullscreenQuad_def create_eq release_def the_draw_def)

lemma Apply_null:
  "c = nullptr \<or> inputTexture = nullptr \<or> outputTarget = nullptr \<or> \<not> m_enabled e
     \<Longrightarrow> Apply c inputTexture outputTarget params e w = Inr w"
  by (auto simp: Apply_def)

lemma Apply_preserves:
  assumes "Apply c inputTexture outputTarget params e w = Inr w'"
  shows "copyEffect w' = copyEffect w" and "allocated w \<le> allocated w'"
    and "well_formed w \<Longrightarrow> objects w' = objects w"
proof -
  let ?w7 = "(Shader_Bind (m_pixelShader e) c
        (Shader_Bind (m_vertexShader e) c
           (UpdateParameterBuffer c params e w
              \<lparr>OMRenderTarget := outputTarget,
               Viewport := (m_effectWidth e, m_effectHeight e)\<rparr>)))
      \<lparr>PSShaderResource := inputTexture, PSConstantBuffer := m_parameterBuffer e\<rparr>"
  from assms consider "w' = w"
    | "w' = (DrawFullscreenQuad c ?w7)\<lparr>PSShaderResource := nullptr\<rparr>"
    by (auto simp: Apply_def Let_def split: if_splits)
  note cases = this
  have a7: "allocated ?w7 = allocated w" and o7: "objects ?w7 = objects w"
    and c7: "copyEffect ?w7 = copyEffect w"
    by simp_all
  show "copyEffect w' = copyEffect w"
    using cases c7 by cases simp_all
  show "allocated w \<le> allocated w'"
    using cases DrawFullscreenQuad_fields(2) [of ?w7 c] a7 by cases simp_all
  assume wf: "well_formed w"
  then have "well_formed ?w7"
    by (simp add: well_formed_def)
  from DrawFullscreenQuad_objects [OF this, of c] o7
  have obj: "objects (DrawFullscreenQuad c ?w7) = objects w"
    by simp
  show "objects w' = objects w"
    using cases obj by cases simp_all
qed

lemma Apply_well_formed:
  assumes "Apply c inputTexture outputTarget params e w = Inr w'" and "well_formed w"
  shows "well_formed w'"
  using Apply_preserves(2,3) [OF assms(1)] assms(2)
  by (fastforce simp: well_formed_def)

lemma Apply_draws:
  assumes "c \<noteq> nullptr" "inputTexture \<noteq> nullptr" "outputTarget \<noteq> nullptr" "m_enabled e"
    and "m_vertexShader e \<noteq> nullptr" "m_pixelShader e \<noteq> nullptr" and "outcomes w = []"
  shows "\<exists>w' d. Apply c inputTexture outputTarget params e w = Inr w'
           \<and> draws w' = draws w @ [d] \<and> target d = outputTarget \<and> source d = inputTexture
           \<and> constants d = m_parameterBuffer e \<and> view d = (m_effectWidth e, m_effectHeight e)"
  using assms
  by (simp add: Apply_def Let_def DrawFullscreenQuad_draws the_draw_def)

subsection \<open>What Process and CopyTexture leave alone\<close>

lemma run_calls_preserves:
  assumes "run_calls c params calls w = Inr w'"
  shows "copyEffect w' = copyEffect w
       \<and> (well_formed w \<longrightarrow> objects w' = objects w \<and> well_formed w')"
  using assms
proof (induction calls arbitrary: w)
  case Nil
  then show ?case by simp
next
  case (Cons call calls)
  obtain e a b where call: "call = (e, a, b)"
    by (cases call)
  from Cons.prems call obtain w1 where
    step: "Apply c a b params e w = Inr w1" and rest: "run_calls c params calls w1 = Inr w'"
    by (auto split: sum.splits)
  from Cons.IH [OF rest] Apply_preserves(1,3) [OF step] Apply_well_formed [OF step]
  show ?case by auto
qed

lemma Process_eq:
  "Process m c inputTexture outputTarget w =
     (if c = nullptr \<or> inputTexture = nullptr \<or> outputTarget = nullptr \<or> m_effectOrder m = []
      then CopyTexture m c inputTexture outputTarget w
      else case run_calls c (m_parameters m)
                  (Process_calls m outputTarget 0 inputTexture True)
                  (w\<lparr>PSSampler := m_samplerState m\<rparr>) of
             Inl err \<Rightarrow> Inl err
           | Inr w2 \<Rightarrow> Inr (w2\<lparr>PSSampler := nullptr\<rparr>))"
  by (simp add: Process_def Process_loop_calls Let_def)

lemma Effect_Initialize_fields:
  assumes "Effect_Initialize device width height e w = (ok, e', w')"
  shows "copyEffect w' = copyEffect w" and "well_formed w \<Longrightarrow> well_formed w'"
    and "textures w' = textures w"
proof -
  obtain vs w1 where c1: "create (ShaderObject Vertex FULLSCREEN_QUAD_VS) w = (vs, w1)"
    by (cases "create (ShaderObject Vertex FULLSCREEN_QUAD_VS) w")
  obtain ps w2 where c2: "create (ShaderObject Pixel (GetPixelShaderCode e)) w1 = (ps, w2)"
    by (cases "create (ShaderObject Pixel (GetPixelShaderCode e)) w1")
  obtain buf w3 where c3: "create (Buffer parameter_buffer_desc) w2 = (buf, w3)"
    by (cases "create (Buffer parameter_buffer_desc) w2")
  from assms c1 c2 c3 have which: "w' = w \<or> w' = w1 \<or> w' = w2 \<or> w' = w3"
    by (auto simp add: Effect_Initialize_def CreateVertexShaderFromString_def
        CreatePixelShaderFromString_def Let_def split: if_splits)
  from which create_fields(1) [OF c1] create_fields(1) [OF c2] create_fields(1) [OF c3]
  show "copyEffect w' = copyEffect w"
    by auto
  from which create_well_formed [OF c1] create_well_formed [OF c2] create_well_formed [OF c3]
  show "well_formed w \<Longrightarrow> well_formed w'"
    by auto
  from Effect_Initialize_objects [OF assms] obtain new where
    new: "objects w' = objects w @ new"
      "set new \<subseteq> {(m_vertexShader e', ShaderObject Vertex FULLSCREEN_QUAD_VS),
                    (m_pixelShader e', ShaderObject Pixel (GetPixelShaderCode e)),
                    (m_parameterBuffer e', Buffer parameter_buffer_desc)}"
    by blast
  have "\<not> is_texture ob" if "(p, ob) \<in> set new" for p ob
    using subsetD [OF new(2) that] by auto
  then have "filter (\<lambda>(p, ob). is_texture ob) new = []"
    by (auto simp: filter_empty_conv)
  with new(1) show "textures w' = textures w"
    by (simp add: textures_def)
qed

lemma CopyTexture_preserves:
  assumes "CopyTexture m c input output w = Inr w'"
  shows "well_formed w \<Longrightarrow> textures w' = textures w \<and> well_formed w'"
    and "copyEffect w = Some e \<Longrightarrow> copyEffect w' = Some e"
proof -
  show "copyEffect w = Some e \<Longrightarrow> copyEffect w' = Some e"
    using assms Apply_preserves(1)
    by (auto simp: CopyTexture_def split: if_splits)
  assume wf: "well_formed w"
  show "textures w' = textures w \<and> well_formed w'"
  proof (cases "c = nullptr \<or> input = nullptr \<or> output = nullptr")
    case True
    with assms wf show ?thesis by (auto simp: CopyTexture_def)
  next
    case args: False
    show ?thesis
    proof (cases "copyEffect w")
      case (Some e0)
      with assms args have ap: "Apply c input output PostProcessParams_ctor e0 w = Inr w'"
        by (auto simp: CopyTexture_def)
      from Apply_preserves(3) [OF ap wf] Apply_well_formed [OF ap wf] show ?thesis
        by (simp add: textures_def)
    next
      case None
      obtain ok e0 w1 where init: "Effect_Initialize (m_device m) (m_width m) (m_height m)
                           (PostProcessEffect_Base_ctor PostProcessEffect_None) w = (ok, e0, w1)"
        by (cases "Effect_Initialize (m_device m) (m_width m) (m_height m)
                           (PostProcessEffect_Base_ctor PostProcessEffect_None) w") auto
      let ?w1 = "w1\<lparr>copyEffect := Some e0\<rparr>"
      from assms args None init
      have ap: "Apply c input output PostProcessParams_ctor e0 ?w1 = Inr w'"
        by (auto simp: CopyTexture_def)
      have wf1: "well_formed ?w1"
        using Effect_Initialize_fields(2) [OF init wf] by (simp add: well_formed_def)
      have "textures ?w1 = textures w"
        using Effect_Initialize_fields(3) [OF init] by (simp add: textures_def)
      with Apply_preserves(3) [OF ap wf1] Apply_well_formed [OF ap wf1] show ?thesis
        by (simp add: textures_def)
    qed
  qed
qed

subsection \<open>AddEffect on a manager that was shut down and initialised again\<close>

lemma release_if_outcomes: "outcomes (release_if p w) = outcomes w"
  by (simp add: release_if_def release_def)

lemma Effect_Shutdown_outcomes: "outcomes (snd (Effect_Shutdown e w)) = outcomes w"
  by (simp add: Effect_Shutdown_def Let_def release_def)

lemma fold_Effect_Shutdown_outcomes:
  "outcomes (fold (\<lambda>(t, e) v. snd (Effect_Shutdown e v)) es w) = outcomes w"
  by (induction es arbitrary: w) (auto simp: Effect_Shutdown_outcomes split: prod.splits)

lemma Manager_Shutdown_fields:
  "m_effects (fst (Manager_Shutdown m w)) = []"
  "m_effectOrder (fst (Manager_Shutdown m w)) = m_effectOrder m"
  "outcomes (snd (Manager_Shutdown m w)) = outcomes w"
  by (simp_all add: Manager_Shutdown_def Let_def fold_Effect_Shutdown_outcomes
      release_if_outcomes)

lemma CreateRenderTargets_fields:
  "m_effects (fst (snd (CreateRenderTargets m w))) = m_effects m"
  "m_effectOrder (fst (snd (CreateRenderTargets m w))) = m_effectOrder m"
  "m_device (fst (snd (CreateRenderTargets m w))) = m_device m"
  "m_width (fst (snd (CreateRenderTargets m w))) = m_width m"
  "m_height (fst (snd (CreateRenderTargets m w))) = m_height m"
  "outcomes w = [] \<Longrightarrow> outcomes (snd (snd (CreateRenderTargets m w))) = []"
  by (simp_all add: CreateRenderTargets_def create_eq Let_def)

lemma Manager_Initialize_fields:
  "m_effects (fst (snd (Manager_Initialize device width height m w))) = m_effects m"
  "m_effectOrder (fst (snd (Manager_Initialize device width height m w))) = m_effectOrder m"
  "device \<noteq> nullptr \<Longrightarrow> m_device (fst (snd (Manager_Initialize device width height m w))) = device"
  "device \<noteq> nullptr \<Longrightarrow> m_width (fst (snd (Manager_Initialize device width height m w))) = width"
  "device \<noteq> nullptr \<Longrightarrow> m_height (fst (snd (Manager_Initialize device width height m w))) = height"
  "outcomes w = [] \<Longrightarrow> outcomes (snd (snd (Manager_Initialize device width height m w))) = []"
proof -
  let ?m = "m\<lparr>m_device := device, m_width := width, m_height := height\<rparr>"
  obtain ok m2 w2 where crt: "CreateRenderTargets ?m w = (ok, m2, w2)"
    by (cases "CreateRenderTargets ?m w")
  note f = CreateRenderTargets_fields [where m = ?m and w = w, unfolded crt, simplified]
  show "m_effects (fst (snd (Manager_Initialize device width height m w))) = m_effects m"
    "m_effectOrder (fst (snd (Manager_Initialize device width height m w))) = m_effectOrder m"
    "device \<noteq> nullptr \<Longrightarrow> m_device (fst (snd (Manager_Initialize device width height m w))) = device"
    "device \<noteq> nullptr \<Longrightarrow> m_width (fst (snd (Manager_Initialize device width height m w))) = width"
    "device \<noteq> nullptr \<Longrightarrow> m_height (fst (snd (Manager_Initialize device width height m w))) = height"
    "outcomes w = [] \<Longrightarrow> outcomes (snd (snd (Manager_Initialize device width height m w))) = []"
    using crt f by (simp_all add: Manager_Initialize_def Let_def create_eq)
qed

lemma AddEffect_Bloom_first:
  "m_effectOrder (fst (AddEffect Bloom manager_1280x720 world_1280x720)) = [Bloom]"
  "outcomes (snd (AddEffect Bloom manager_1280x720 world_1280x720)) = []"
  by (simp_all add: AddEffect_def Effect_Initialize_def device_defs
      manager_1280x720_fields world_1280x720_fields PostProcessEffect_Base_ctor_def)

lemma restarted_setup_fields:
  "m_effects (fst restarted_setup) = []" "m_effectOrder (fst restarted_setup) = [Bloom]"
  "m_device (fst restarted_setup) = 1" "m_width (fst restarted_setup) = 1280"
  "m_height (fst restarted_setup) = 720" "outcomes (snd restarted_setup) = []"
proof -
  obtain m1 w1 where a: "AddEffect Bloom manager_1280x720 world_1280x720 = (m1, w1)"
    by (cases "AddEffect Bloom manager_1280x720 world_1280x720")
  obtain m2 w2 where b: "Manager_Shutdown m1 w1 = (m2, w2)"
    by (cases "Manager_Shutdown m1 w1")
  from AddEffect_Bloom_first a have 1: "m_effectOrder m1 = [Bloom]" "outcomes w1 = []"
    by simp_all
  from Manager_Shutdown_fields [of m1 w1] b 1
  have 2: "m_effects m2 = []" "m_effectOrder m2 = [Bloom]" "outcomes w2 = []"
    by simp_all
  have r: "restarted_setup = snd (Manager_Initialize 1 1280 720 m2 w2)"
    by (simp add: restarted_setup_def a b)
  show "m_effects (fst restarted_setup) = []" "m_effectOrder (fst restarted_setup) = [Bloom]"
    "m_device (fst restarted_setup) = 1" "m_width (fst restarted_setup) = 1280"
    "m_height (fst restarted_setup) = 720" "outcomes (snd restarted_setup) = []"
    unfolding r using 2 by (simp_all add: Manager_Initialize_fields)
qed

text \<open>
  C5 as stated fails in two ways. When the device cannot compile the vertex shader, two
  \<open>AddEffect\<close> calls in a row leave no instance and no order entry. And on a manager that
  was shut down and initialised again, where Bloom is no longer active but still in
  \<open>m_effectOrder\<close>, two \<open>AddEffect\<close> calls in a row leave one instance and two order
  entries.
\<close>

theorem AddEffect_twice_counterexample:
  "count_list (map fst (m_effects (fst (AddEffect_twice Grayscale manager_1280x720
       (world_1280x720\<lparr>outcomes := [False, False]\<rparr>))))) Grayscale = 0
   \<and> count_list (m_effectOrder (fst (AddEffect_twice Grayscale manager_1280x720
       (world_1280x720\<lparr>outcomes := [False, False]\<rparr>)))) Grayscale = 0
   \<and> map_of (m_effects (fst restarted_setup)) Bloom = None
   \<and> count_list (map fst (m_effects
         (fst (AddEffect_twice Bloom (fst restarted_setup) (snd restarted_setup))))) Bloom = 1
   \<and> count_list (m_effectOrder
         (fst (AddEffect_twice Bloom (fst restarted_setup) (snd restarted_setup)))) Bloom = 2"
proof -
  have failing: "count_list (map fst (m_effects (fst (AddEffect_twice Grayscale manager_1280x720
       (world_1280x720\<lparr>outcomes := [False, False]\<rparr>))))) Grayscale = 0
   \<and> count_list (m_effectOrder (fst (AddEffect_twice Grayscale manager_1280x720
       (world_1280x720\<lparr>outcomes := [False, False]\<rparr>)))) Grayscale = 0"
    by (simp add: AddEffect_twice_def AddEffect_def Effect_Initialize_def Effect_Shutdown_def
        device_defs manager_1280x720_fields PostProcessEffect_Base_ctor_def)
  have restarted: "map_of (m_effects (fst restarted_setup)) Bloom = None
   \<and> count_list (map fst (m_effects
         (fst (AddEffect_twice Bloom (fst restarted_setup) (snd restarted_setup))))) Bloom = 1
   \<and> count_list (m_effectOrder
         (fst (AddEffect_twice Bloom (fst restarted_setup) (snd restarted_setup)))) Bloom = 2"
    by (simp add: AddEffect_twice_def AddEffect_def Effect_Initialize_def device_defs
        restarted_setup_fields PostProcessEffect_Base_ctor_def)
  from failing restarted show ?thesis by blast
qed

theorem AddEffect_idempotent_witness:
  "map_of (m_effects manager_1280x720) Grayscale = None
   \<and> Grayscale \<notin> set (m_effectOrder manager_1280x720)
   \<and> fst (Effect_Initialize (m_device manager_1280x720) (m_width manager_1280x720)
            (m_height manager_1280x720) (PostProcessEffect_Base_ctor Grayscale) world_1280x720)
   \<and> count_list (map fst (m_effects
        (fst (AddEffect_twice Grayscale manager_1280x720 world_1280x720)))) Grayscale = 1
   \<and> count_list (m_effectOrder
        (fst (AddEffect_twice Grayscale manager_1280x720 world_1280x720))) Grayscale = 1
   \<and> AddEffect_twice Grayscale manager_1280x720 world_1280x720
       = AddEffect Grayscale manager_1280x720 world_1280x720
   \<and> \<not> fst (Effect_Initialize (m_device manager_1280x720) (m_width manager_1280x720)
            (m_height manager_1280x720) (PostProcessEffect_Base_ctor Grayscale)
            (world_1280x720\<lparr>outcomes := [True, False]\<rparr>))
   \<and> fst (AddEffect Grayscale manager_1280x720 (world_1280x720\<lparr>outcomes := [True, False]\<rparr>))
       = manager_1280x720
   \<and> AddEffect Grayscale (fst (AddEffect Grayscale manager_1280x720 world_1280x720))
         (snd (AddEffect Grayscale manager_1280x720 world_1280x720))
       = AddEffect Grayscale manager_1280x720 world_1280x720"
proof -
  let ?bad = "world_1280x720\<lparr>outcomes := [True, False]\<rparr>"
  have absent: "map_of (m_effects manager_1280x720) Grayscale = None"
    and order: "Grayscale \<notin> set (m_effectOrder manager_1280x720)"
    by (simp_all add: manager_1280x720_fields)
  have good: "fst (Effect_Initialize (m_device manager_1280x720) (m_width manager_1280x720)
            (m_height manager_1280x720) (PostProcessEffect_Base_ctor Grayscale) world_1280x720)"
    by (simp add: Effect_Initialize_def device_defs manager_1280x720_fields
        world_1280x720_fields)
  have bad: "\<not> fst (Effect_Initialize (m_device manager_1280x720) (m_width manager_1280x720)
            (m_height manager_1280x720) (PostProcessEffect_Base_ctor Grayscale) ?bad)"
    by (simp add: Effect_Initialize_def device_defs manager_1280x720_fields)
  from AddEffect_idempotent [of manager_1280x720 Grayscale world_1280x720] absent order good
  have counts: "count_list (map fst (m_effects
        (fst (AddEffect_twice Grayscale manager_1280x720 world_1280x720)))) Grayscale = 1
   \<and> count_list (m_effectOrder
        (fst (AddEffect_twice Grayscale manager_1280x720 world_1280x720))) Grayscale = 1"
    by blast
  obtain e w1 where init: "Effect_Initialize (m_device manager_1280x720)
            (m_width manager_1280x720) (m_height manager_1280x720)
            (PostProcessEffect_Base_ctor Grayscale) world_1280x720 = (True, e, w1)"
    using good
    by (cases "Effect_Initialize (m_device manager_1280x720) (m_width manager_1280x720)
            (m_height manager_1280x720) (PostProcessEffect_Base_ctor Grayscale) world_1280x720")
       auto
  have active: "map_of (m_effects (fst (AddEffect Grayscale manager_1280x720 world_1280x720)))
      Grayscale \<noteq> None"
    using absent init by (simp add: AddEffect_def update_absent map_of_append)
  from AddEffect_idempotent [of manager_1280x720 Grayscale world_1280x720] active
  have same: "AddEffect_twice Grayscale manager_1280x720 world_1280x720
       = AddEffect Grayscale manager_1280x720 world_1280x720"
    by blast
  from AddEffect_idempotent [of manager_1280x720 Grayscale ?bad] absent bad
  have unchanged: "fst (AddEffect Grayscale manager_1280x720 ?bad) = manager_1280x720"
    by blast
  from AddEffect_idempotent [of "fst (AddEffect Grayscale manager_1280x720 world_1280x720)"
      Grayscale "snd (AddEffect Grayscale manager_1280x720 world_1280x720)"] active
  have again: "AddEffect Grayscale (fst (AddEffect Grayscale manager_1280x720 world_1280x720))
         (snd (AddEffect Grayscale manager_1280x720 world_1280x720))
       = AddEffect Grayscale manager_1280x720 world_1280x720"
    by simp
  show ?thesis
    by (intro conjI absent order good conjunct1 [OF counts] conjunct2 [OF counts] same bad
        unchanged again)
qed

subsection \<open>CreateRenderTargets\<close>

lemma CreateRenderTargets_success:
  assumes "CreateRenderTargets m w = (True, m', w')"
  shows "objects w' = objects w @
           [(m_renderTarget1 m', Texture2D (textureDesc m)),
            (m_renderTargetView1 m', RenderTargetView (m_renderTarget1 m')),
            (m_shaderResourceView1 m', ShaderResourceView (m_renderTarget1 m')),
            (m_renderTarget2 m', Texture2D (textureDesc m)),
            (m_renderTargetView2 m', RenderTargetView (m_renderTarget2 m')),
            (m_shaderResourceView2 m', ShaderResourceView (m_renderTarget2 m'))]"
    and "m_renderTarget1 m' = Suc (allocated w)"
    and "m_renderTarget2 m' = Suc (Suc (Suc (Suc (allocated w))))"
    and "allocated w' = allocated w + 6"
    and "copyEffect w' = copyEffect w"
    and "m' = m\<lparr>m_renderTarget1 := m_renderTarget1 m', m_renderTargetView1 := m_renderTargetView1 m',
              m_shaderResourceView1 := m_shaderResourceView1 m',
              m_renderTarget2 := m_renderTarget2 m', m_renderTargetView2 := m_renderTargetView2 m',
              m_shaderResourceView2 := m_shaderResourceView2 m'\<rparr>"
    and "m_renderTargetView1 m' \<noteq> nullptr" "m_shaderResourceView1 m' \<noteq> nullptr"
      "m_renderTargetView2 m' \<noteq> nullptr" "m_shaderResourceView2 m' \<noteq> nullptr"
  using assms
  by (auto simp: CreateRenderTargets_def create_eq Let_def split: if_splits)

lemma CreateRenderTargets_failure:
  assumes "CreateRenderTargets m w = (False, m', w')"
  shows "\<exists>new. objects w' = objects w @ new
           \<and> (\<forall>(p, ob) \<in> set new. p \<noteq> nullptr
                 \<and> p \<in> {m_renderTarget1 m', m_renderTargetView1 m', m_shaderResourceView1 m',
                         m_renderTarget2 m', m_renderTargetView2 m', m_shaderResourceView2 m'})"
  using assms
  by (auto simp: CreateRenderTargets_def create_eq Let_def split: if_splits)

lemma CreateRenderTargets_exact:
  assumes "CreateRenderTargets m w = (ok, m', w')"
  shows "objects w' = objects w @ take (allocated w' - allocated w) (render_target_objects m (allocated w))"
    and "take (allocated w' - allocated w) (render_target_members m')
          = map fst (take (allocated w' - allocated w) (render_target_objects m (allocated w)))"
    and "allocated w \<le> allocated w'" and "allocated w' - allocated w \<le> 6"
    and "ok \<longleftrightarrow> allocated w' - allocated w = 6"
  using assms
  by (auto simp: CreateRenderTargets_def create_eq Let_def render_target_objects_def
      render_target_members_def Suc_diff_le split: if_splits)

lemma CreateRenderTargets_count:
  assumes "CreateRenderTargets m w = (ok, m', w')" and "m_device m \<noteq> nullptr"
  shows "allocated w' - allocated w = leading_successes 6 (outcomes w)"
  using assms
  by (auto simp: CreateRenderTargets_def create_eq Let_def Suc_diff_le eval_nat_numeral
      split: if_splits list.splits)

lemma release_shrinks: "set (objects (release p w)) \<subseteq> set (objects w)"
  by (auto simp: release_def)

lemma release_gone: "p \<notin> fst ` set (objects (release p w))"
  by (auto simp: release_def)

lemma release_if_shrinks: "set (objects (release_if p w)) \<subseteq> set (objects w)"
  using release_shrinks by (simp add: release_if_def)

lemma release_if_gone: "p \<noteq> nullptr \<Longrightarrow> p \<notin> fst ` set (objects (release_if p w))"
  using release_gone by (simp add: release_if_def)

lemma Effect_Shutdown_shrinks: "set (objects (snd (Effect_Shutdown e w))) \<subseteq> set (objects w)"
proof -
  have "set (objects (release_if (m_pixelShader e) (release_if (m_vertexShader e)
          (release_if (m_parameterBuffer e) w)))) \<subseteq> set (objects w)"
    using release_if_shrinks by (blast intro: subset_trans)
  then show ?thesis
    by (simp add: Effect_Shutdown_def release_if_def Let_def)
qed

lemma fold_Effect_Shutdown_shrinks:
  "set (objects (fold (\<lambda>(t, e) v. snd (Effect_Shutdown e v)) es w)) \<subseteq> set (objects w)"
proof (induction es arbitrary: w)
  case Nil
  show ?case by simp
next
  case (Cons te es)
  obtain t e where te: "te = (t, e)" by (cases te)
  from Cons.IH [of "snd (Effect_Shutdown e w)"] Effect_Shutdown_shrinks [of e w]
  show ?case by (auto simp: te)
qed

lemma gone_stays:
  "set (objects w') \<subseteq> set (objects w) \<Longrightarrow> p \<notin> fst ` set (objects w) \<Longrightarrow>
   p \<notin> fst ` set (objects w')"
  by auto

lemma Manager_Shutdown_released:
  assumes "p \<noteq> nullptr"
    and "p \<in> {m_renderTarget1 m, m_renderTargetView1 m, m_shaderResourceView1 m,
              m_renderTarget2 m, m_renderTargetView2 m, m_shaderResourceView2 m,
              m_samplerState m}"
  shows "p \<notin> fst ` set (objects (snd (Manager_Shutdown m w)))"
proof -
  define w1 where "w1 = fold (\<lambda>(t, e) v. snd (Effect_Shutdown e v)) (m_effects m) w"
  define w2 where "w2 = release_if (m_samplerState m) w1"
  define w3 where "w3 = release_if (m_shaderResourceView2 m) w2"
  define w4 where "w4 = release_if (m_shaderResourceView1 m) w3"
  define w5 where "w5 = release_if (m_renderTargetView2 m) w4"
  define w6 where "w6 = release_if (m_renderTargetView1 m) w5"
  define w7 where "w7 = release_if (m_renderTarget2 m) w6"
  define w8 where "w8 = release_if (m_renderTarget1 m) w7"
  have final: "objects (snd (Manager_Shutdown m w)) = objects w8"
    by (simp add: Manager_Shutdown_def Let_def w1_def w2_def w3_def w4_def w5_def w6_def
        w7_def w8_def)
  have s: "set (objects w8) \<subseteq> set (objects w7)" "set (objects w7) \<subseteq> set (objects w6)"
    "set (objects w6) \<subseteq> set (objects w5)" "set (objects w5) \<subseteq> set (objects w4)"
    "set (objects w4) \<subseteq> set (objects w3)" "set (objects w3) \<subseteq> set (objects w2)"
    unfolding w8_def w7_def w6_def w5_def w4_def w3_def by (rule release_if_shrinks)+
  have g: "q \<noteq> nullptr \<Longrightarrow> q \<notin> fst ` set (objects (release_if q v))" for q v
    by (rule release_if_gone)
  from assms(2) consider "p = m_samplerState m" | "p = m_shaderResourceView2 m"
    | "p = m_shaderResourceView1 m" | "p = m_renderTargetView2 m"
    | "p = m_renderTargetView1 m" | "p = m_renderTarget2 m" | "p = m_renderTarget1 m"
    by auto
  then have "p \<notin> fst ` set (objects w8)"
  proof cases
    case 1
    with g [OF assms(1), of w1] have "p \<notin> fst ` set (objects w2)" by (simp add: w2_def)
    with s show ?thesis by blast
  next
    case 2
    with g [OF assms(1), of w2] have "p \<notin> fst ` set (objects w3)" by (simp add: w3_def)
    with s show ?thesis by blast
  next
    case 3
    with g [OF assms(1), of w3] have "p \<notin> fst ` set (objects w4)" by (simp add: w4_def)
    with s show ?thesis by blast
  next
    case 4
    with g [OF assms(1), of w4] have "p \<notin> fst ` set (objects w5)" by (simp add: w5_def)
    with s show ?thesis by blast
  next
    case 5
    with g [OF assms(1), of w5] have "p \<notin> fst ` set (objects w6)" by (simp add: w6_def)
    with s show ?thesis by blast
  next
    case 6
    with g [OF assms(1), of w6] have "p \<notin> fst ` set (objects w7)" by (simp add: w7_def)
    with s show ?thesis by blast
  next
    case 7
    with g [OF assms(1), of w7] show ?thesis by (simp add: w8_def)
  qed
  with final show ?thesis by simp
qed

text \<open>
  C7, as the code has it. \<open>CreateRenderTargets\<close> creates both textures from the one
  description \<open>textureDesc m\<close>: the same width and height and the format
  \<^verbatim>\<open>DXGI_FORMAT_R8G8B8A8_UNORM\<close>, each with its render-target view and its
  shader-resource view. It makes its six creations in order and stops at the first that
  fails, so with a device it creates as many objects as the coming outcomes start with
  successes, all six exactly when it returns \<open>True\<close>. It releases nothing: afterwards the
  device holds what it held before followed by every object the call created, each at the
  member of the manager that was assigned for it. \<open>Manager_Shutdown\<close> is what releases
  them.
\<close>

theorem CreateRenderTargets_outcome:
  assumes "CreateRenderTargets m w = (ok, m', w')"
  shows "(ok \<longrightarrow>
            (m_renderTarget1 m', Texture2D (textureDesc m)) \<in> set (objects w')
          \<and> (m_renderTarget2 m', Texture2D (textureDesc m)) \<in> set (objects w')
          \<and> m_renderTarget1 m' \<noteq> m_renderTarget2 m'
          \<and> (m_renderTargetView1 m', RenderTargetView (m_renderTarget1 m')) \<in> set (objects w')
          \<and> (m_shaderResourceView1 m', ShaderResourceView (m_renderTarget1 m')) \<in> set (objects w')
          \<and> (m_renderTargetView2 m', RenderTargetView (m_renderTarget2 m')) \<in> set (objects w')
          \<and> (m_shaderResourceView2 m', ShaderResourceView (m_renderTarget2 m')) \<in> set (objects w'))
       \<and> Format (textureDesc m) = DXGI_FORMAT_R8G8B8A8_UNORM
       \<and> Width (textureDesc m) = word_of_int (m_width m)
       \<and> Height (textureDesc m) = word_of_int (m_height m)
       \<and> (m_device m \<noteq> nullptr
            \<longrightarrow> allocated w' - allocated w = leading_successes 6 (outcomes w))
       \<and> allocated w \<le> allocated w'
       \<and> (ok \<longleftrightarrow> allocated w' - allocated w = 6)
       \<and> objects w' =
           objects w @ take (allocated w' - allocated w) (render_target_objects m (allocated w))
       \<and> take (allocated w' - allocated w) (render_target_members m') =
           map fst (take (allocated w' - allocated w) (render_target_objects m (allocated w)))
       \<and> (\<forall>(p, ob) \<in> set (take (allocated w' - allocated w)
                                (render_target_objects m (allocated w))).
             p \<noteq> nullptr
           \<and> (p, ob) \<in> set (objects w')
           \<and> p \<in> set (render_target_members m')
           \<and> p \<notin> fst ` set (objects (snd (Manager_Shutdown m' w'))))"
proof -
  let ?n = "allocated w' - allocated w"
  let ?new = "take ?n (render_target_objects m (allocated w))"
  note exact = CreateRenderTargets_exact [OF assms]
  have desc: "Format (textureDesc m) = DXGI_FORMAT_R8G8B8A8_UNORM"
    "Width (textureDesc m) = word_of_int (m_width m)"
    "Height (textureDesc m) = word_of_int (m_height m)"
    by (simp_all add: textureDesc_def)
  have count: "m_device m \<noteq> nullptr \<longrightarrow> ?n = leading_successes 6 (outcomes w)"
    using CreateRenderTargets_count [OF assms] by blast
  have each: "p \<noteq> nullptr \<and> (p, ob) \<in> set (objects w')
           \<and> p \<in> set (render_target_members m')
           \<and> p \<notin> fst ` set (objects (snd (Manager_Shutdown m' w')))"
    if new: "(p, ob) \<in> set ?new" for p ob
  proof -
    from new have "(p, ob) \<in> set (render_target_objects m (allocated w))"
      by (rule in_set_takeD)
    then have nonnull: "p \<noteq> nullptr"
      by (auto simp: render_target_objects_def)
    from new exact(1) have live: "(p, ob) \<in> set (objects w')"
      by simp
    from new have "p \<in> set (map fst ?new)"
      by force
    with exact(2) have "p \<in> set (take ?n (render_target_members m'))"
      by simp
    then have member: "p \<in> set (render_target_members m')"
      by (rule in_set_takeD)
    then have "p \<in> {m_renderTarget1 m', m_renderTargetView1 m', m_shaderResourceView1 m',
              m_renderTarget2 m', m_renderTargetView2 m', m_shaderResourceView2 m',
              m_samplerState m'}"
      by (auto simp: render_target_members_def)
    with nonnull have "p \<notin> fst ` set (objects (snd (Manager_Shutdown m' w')))"
      by (rule Manager_Shutdown_released)
    with nonnull live member show ?thesis by simp
  qed
  then have all: "\<forall>(p, ob) \<in> set ?new.
             p \<noteq> nullptr
           \<and> (p, ob) \<in> set (objects w')
           \<and> p \<in> set (render_target_members m')
           \<and> p \<notin> fst ` set (objects (snd (Manager_Shutdown m' w')))"
    by blast
  have succ: "ok \<longrightarrow>
            (m_renderTarget1 m', Texture2D (textureDesc m)) \<in> set (objects w')
          \<and> (m_renderTarget2 m', Texture2D (textureDesc m)) \<in> set (objects w')
          \<and> m_renderTarget1 m' \<noteq> m_renderTarget2 m'
          \<and> (m_renderTargetView1 m', RenderTargetView (m_renderTarget1 m')) \<in> set (objects w')
          \<and> (m_shaderResourceView1 m', ShaderResourceView (m_renderTarget1 m')) \<in> set (objects w')
          \<and> (m_renderTargetView2 m', RenderTargetView (m_renderTarget2 m')) \<in> set (objects w')
          \<and> (m_shaderResourceView2 m', ShaderResourceView (m_renderTarget2 m')) \<in> set (objects w')"
  proof
    assume ok
    with assms have ok: "CreateRenderTargets m w = (True, m', w')" by simp
    from CreateRenderTargets_success(1-3) [OF ok]
    show "(m_renderTarget1 m', Texture2D (textureDesc m)) \<in> set (objects w')
          \<and> (m_renderTarget2 m', Texture2D (textureDesc m)) \<in> set (objects w')
          \<and> m_renderTarget1 m' \<noteq> m_renderTarget2 m'
          \<and> (m_renderTargetView1 m', RenderTargetView (m_renderTarget1 m')) \<in> set (objects w')
          \<and> (m_shaderResourceView1 m', ShaderResourceView (m_renderTarget1 m')) \<in> set (objects w')
          \<and> (m_renderTargetView2 m', RenderTargetView (m_renderTarget2 m')) \<in> set (objects w')
          \<and> (m_shaderResourceView2 m', ShaderResourceView (m_renderTarget2 m')) \<in> set (objects w')"
      by simp
  qed
  from succ desc count exact(3) exact(5) exact(1) exact(2) all show ?thesis
    by blast
qed

text \<open>
  C7 as stated fails when the first render-target view cannot be created: \<open>Manager_Initialize\<close>
  returns \<open>False\<close>, the first texture is still live and \<open>m_renderTarget1\<close> still points at it.
\<close>

theorem CreateRenderTargets_not_atomic_counterexample:
  "fst (Manager_Initialize 1 1280 720 PostProcessManager_ctor (world0\<lparr>outcomes := [True, False]\<rparr>))
     = False
   \<and> m_renderTarget1 (fst (snd (Manager_Initialize 1 1280 720 PostProcessManager_ctor
         (world0\<lparr>outcomes := [True, False]\<rparr>)))) = 1
   \<and> map fst (objects (snd (snd (Manager_Initialize 1 1280 720 PostProcessManager_ctor
         (world0\<lparr>outcomes := [True, False]\<rparr>))))) = [1]
   \<and> map (is_texture \<circ> snd) (objects (snd (snd (Manager_Initialize 1 1280 720 PostProcessManager_ctor
         (world0\<lparr>outcomes := [True, False]\<rparr>))))) = [True]"
  by (simp add: Manager_Initialize_def CreateRenderTargets_def create_eq Let_def
      PostProcessManager_ctor_def world0_def)

text \<open>
  The same at two concrete inputs: all six creations succeeding, and the fifth failing, where
  the four objects made before it stay in the device, the first texture among them.
\<close>

theorem CreateRenderTargets_outcome_witness:
  "fst (CreateRenderTargets manager_1280x720 world_1280x720)
   \<and> (m_renderTarget2 (fst (snd (CreateRenderTargets manager_1280x720 world_1280x720))),
       Texture2D (textureDesc manager_1280x720))
      \<in> set (objects (snd (snd (CreateRenderTargets manager_1280x720 world_1280x720))))
   \<and> Format (textureDesc manager_1280x720) = DXGI_FORMAT_R8G8B8A8_UNORM
   \<and> \<not> fst (CreateRenderTargets manager_1280x720
              (world_1280x720\<lparr>outcomes := [True, True, True, True, False]\<rparr>))
   \<and> leading_successes 6 [True, True, True, True, False] = 4
   \<and> objects (snd (snd (CreateRenderTargets manager_1280x720
              (world_1280x720\<lparr>outcomes := [True, True, True, True, False]\<rparr>))))
       = objects world_1280x720 @ take 4 (render_target_objects manager_1280x720 7)
   \<and> (8, Texture2D (textureDesc manager_1280x720))
      \<in> set (objects (snd (snd (CreateRenderTargets manager_1280x720
              (world_1280x720\<lparr>outcomes := [True, True, True, True, False]\<rparr>)))))"
proof -
  let ?r = "CreateRenderTargets manager_1280x720 world_1280x720"
  let ?bad = "world_1280x720\<lparr>outcomes := [True, True, True, True, False]\<rparr>"
  let ?f = "CreateRenderTargets manager_1280x720 ?bad"
  have ok: "fst ?r"
    by (simp add: CreateRenderTargets_def create_eq Let_def manager_1280x720_fields
        world_1280x720_fields)
  have eq: "?r = (fst ?r, fst (snd ?r), snd (snd ?r))"
    by simp
  have four: "leading_successes 6 [True, True, True, True, False] = 4"
    by (simp add: eval_nat_numeral)
  have dev: "m_device manager_1280x720 \<noteq> nullptr"
    by (simp add: manager_1280x720_fields)
  have bad: "allocated ?bad = 7" "outcomes ?bad = [True, True, True, True, False]"
    "objects ?bad = objects world_1280x720"
    by (simp_all add: world_1280x720_fields)
  have eq': "?f = (fst ?f, fst (snd ?f), snd (snd ?f))"
    by simp
  note f = CreateRenderTargets_outcome [OF eq']
  from f dev bad four have n: "allocated (snd (snd ?f)) - 7 = 4"
    by simp
  from f n have failed: "\<not> fst ?f"
    by (simp add: bad)
  from f n bad have objs: "objects (snd (snd ?f))
       = objects world_1280x720 @ take 4 (render_target_objects manager_1280x720 7)"
    by simp
  then have first: "(8, Texture2D (textureDesc manager_1280x720)) \<in> set (objects (snd (snd ?f)))"
    by (simp add: render_target_objects_def)
  from CreateRenderTargets_outcome [OF eq] ok
  have second: "(m_renderTarget2 (fst (snd ?r)), Texture2D (textureDesc manager_1280x720))
      \<in> set (objects (snd (snd ?r)))"
    and format: "Format (textureDesc manager_1280x720) = DXGI_FORMAT_R8G8B8A8_UNORM"
    by blast+
  from ok second format failed four objs first show ?thesis
    by blast
qed

subsection \<open>The intermediate surfaces\<close>

lemma Manager_Initialize_textures:
  assumes "Manager_Initialize device width height m0 w0 = (True, m1, w1)"
  shows "textures w1 = textures w0 @
           [(m_renderTarget1 m1, Texture2D (textureDesc m1)),
            (m_renderTarget2 m1, Texture2D (textureDesc m1))]"
    and "m_renderTarget1 m1 \<noteq> m_renderTarget2 m1"
proof -
  let ?m = "m0\<lparr>m_device := device, m_width := width, m_height := height\<rparr>"
  obtain ok m2 w2 where crt: "CreateRenderTargets ?m w0 = (ok, m2, w2)"
    by (cases "CreateRenderTargets ?m w0")
  with assms have ok: "CreateRenderTargets ?m w0 = (True, m2, w2)"
    by (auto simp: Manager_Initialize_def Let_def split: if_splits)
  note r = CreateRenderTargets_success [OF ok]
  from assms ok have m1: "m1 = m2\<lparr>m_samplerState := m_samplerState m1\<rparr>"
    and w1: "objects w1 = objects w2 @ [(m_samplerState m1, SamplerState)]"
    by (auto simp: Manager_Initialize_def Let_def create_eq split: if_splits)
  have desc: "textureDesc m1 = textureDesc ?m"
    by (subst m1, subst r(6)) (simp add: textureDesc_def)
  have rt: "m_renderTarget1 m1 = m_renderTarget1 m2" "m_renderTarget2 m1 = m_renderTarget2 m2"
    by (subst m1, simp)+
  show "textures w1 = textures w0 @
           [(m_renderTarget1 m1, Texture2D (textureDesc m1)),
            (m_renderTarget2 m1, Texture2D (textureDesc m1))]"
    by (simp add: textures_def w1 r(1) desc rt)
  show "m_renderTarget1 m1 \<noteq> m_renderTarget2 m1"
    by (simp add: rt r(2,3))
qed

lemma Process_preserves:
  assumes "Process m c inputTexture outputTarget w = Inr w'"
  shows "well_formed w \<Longrightarrow> textures w' = textures w \<and> well_formed w'"
    and "copyEffect w = Some e \<Longrightarrow> copyEffect w' = Some e"
proof -
  let ?copy = "c = nullptr \<or> inputTexture = nullptr \<or> outputTarget = nullptr
      \<or> m_effectOrder m = []"
  let ?w1 = "w\<lparr>PSSampler := m_samplerState m\<rparr>"
  have chain: "\<exists>w2. run_calls c (m_parameters m)
        (Process_calls m outputTarget 0 inputTexture True) ?w1 = Inr w2
      \<and> w' = w2\<lparr>PSSampler := nullptr\<rparr>" if "\<not> ?copy"
    using assms that by (auto simp: Process_eq split: sum.splits)
  have copy: "CopyTexture m c inputTexture outputTarget w = Inr w'" if ?copy
    using assms that by (simp add: Process_eq)
  show "copyEffect w = Some e \<Longrightarrow> copyEffect w' = Some e"
  proof (cases ?copy)
    case True
    assume "copyEffect w = Some e"
    with CopyTexture_preserves(2) [OF copy [OF True]] show ?thesis by simp
  next
    case False
    assume "copyEffect w = Some e"
    with chain [OF False] run_calls_preserves show ?thesis by fastforce
  qed
  assume wf: "well_formed w"
  show "textures w' = textures w \<and> well_formed w'"
  proof (cases ?copy)
    case True
    from CopyTexture_preserves(1) [OF copy [OF True] wf] show ?thesis .
  next
    case False
    from chain [OF False] obtain w2 where
      run: "run_calls c (m_parameters m) (Process_calls m outputTarget 0 inputTexture True) ?w1
              = Inr w2"
      and w': "w' = w2\<lparr>PSSampler := nullptr\<rparr>"
      by blast
    have "well_formed ?w1"
      using wf by (simp add: well_formed_def)
    with run_calls_preserves [OF run] have "objects w2 = objects w" "well_formed w2"
      by simp_all
    then show ?thesis
      by (simp add: w' textures_def well_formed_def)
  qed
qed

text \<open>
  C8. A successful \<open>Manager_Initialize\<close> adds exactly two textures to the device, the two
  render targets of the manager. \<open>Process\<close>, when it returns, leaves the textures of the
  device as they were, whatever the length of the chain: every \<open>Apply\<close> it makes reads the
  input texture or one of the two shader-resource views and writes the output target or one
  of the two render-target views, and the passes before the last list position write
  \<open>m_renderTargetView1\<close> and \<open>m_renderTargetView2\<close> in turn.
\<close>

theorem Process_surfaces:
  "(Manager_Initialize device width height m0 w0 = (True, m1, w1)
      \<longrightarrow> textures w1 = textures w0 @
            [(m_renderTarget1 m1, Texture2D (textureDesc m1)),
             (m_renderTarget2 m1, Texture2D (textureDesc m1))]
        \<and> m_renderTarget1 m1 \<noteq> m_renderTarget2 m1)
   \<and> (well_formed w \<and> Process m c inputTexture outputTarget w = Inr w'
      \<longrightarrow> textures w' = textures w \<and> well_formed w')
   \<and> Process m c inputTexture outputTarget w =
       (if c = nullptr \<or> inputTexture = nullptr \<or> outputTarget = nullptr \<or> m_effectOrder m = []
        then CopyTexture m c inputTexture outputTarget w
        else case run_calls c (m_parameters m)
                    (Process_calls m outputTarget 0 inputTexture True)
                    (w\<lparr>PSSampler := m_samplerState m\<rparr>) of
               Inl err \<Rightarrow> Inl err
             | Inr w2 \<Rightarrow> Inr (w2\<lparr>PSSampler := nullptr\<rparr>))
   \<and> (\<forall>(e, a, b) \<in> set (Process_calls m outputTarget 0 inputTexture True).
         a \<in> {inputTexture, m_shaderResourceView1 m, m_shaderResourceView2 m}
       \<and> b \<in> {outputTarget, m_renderTargetView1 m, m_renderTargetView2 m})
   \<and> (\<forall>k. Suc k < length (Process_calls m outputTarget 0 inputTexture True)
         \<longrightarrow> snd (snd (Process_calls m outputTarget 0 inputTexture True ! k)) =
               (if even k then m_renderTargetView1 m else m_renderTargetView2 m))"
proof -
  have init: "Manager_Initialize device width height m0 w0 = (True, m1, w1)
      \<longrightarrow> textures w1 = textures w0 @
            [(m_renderTarget1 m1, Texture2D (textureDesc m1)),
             (m_renderTarget2 m1, Texture2D (textureDesc m1))]
        \<and> m_renderTarget1 m1 \<noteq> m_renderTarget2 m1"
    using Manager_Initialize_textures by blast
  have keep: "well_formed w \<and> Process m c inputTexture outputTarget w = Inr w'
      \<longrightarrow> textures w' = textures w \<and> well_formed w'"
    using Process_preserves(1) by blast
  have targets: "\<forall>(e, a, b) \<in> set (Process_calls m outputTarget 0 inputTexture True).
         a \<in> {inputTexture, m_shaderResourceView1 m, m_shaderResourceView2 m}
       \<and> b \<in> {outputTarget, m_renderTargetView1 m, m_renderTargetView2 m}"
    using Process_calls_targets [of _ _ _ m outputTarget 0 inputTexture True] by blast
  have turn: "\<forall>k. Suc k < length (Process_calls m outputTarget 0 inputTexture True)
         \<longrightarrow> snd (snd (Process_calls m outputTarget 0 inputTexture True ! k)) =
               (if even k then m_renderTargetView1 m else m_renderTargetView2 m)"
    using Process_calls_alternate [of _ m outputTarget 0 inputTexture True] by simp
  from init keep Process_eq [of m c inputTexture outputTarget w] targets turn
  show ?thesis by blast
qed

subsection \<open>Process on the demo chain\<close>

lemma demo_setup_manager:
  "fst demo_setup =
     manager_1280x720
       \<lparr>m_effects :=
          [(Bloom, \<lparr>m_type = Bloom, m_enabled = True, m_vertexShader = 8, m_pixelShader = 9,
                    m_parameterBuffer = 10, m_effectWidth = 1280, m_effectHeight = 720\<rparr>),
           (ToneMapping, \<lparr>m_type = ToneMapping, m_enabled = True, m_vertexShader = 11,
                    m_pixelShader = 12, m_parameterBuffer = 13, m_effectWidth = 1280,
                    m_effectHeight = 720\<rparr>),
           (Vignette, \<lparr>m_type = Vignette, m_enabled = True, m_vertexShader = 14,
                    m_pixelShader = 15, m_parameterBuffer = 16, m_effectWidth = 1280,
                    m_effectHeight = 720\<rparr>)],
        m_effectOrder := [Bloom, ToneMapping, Vignette]\<rparr>"
  by (simp add: demo_setup_def AddEffect_def Effect_Initialize_def device_defs
      manager_1280x720_fields world_1280x720_fields PostProcessEffect_Base_ctor_def)

lemma demo_setup_world:
  "snd demo_setup =
     world_1280x720
       \<lparr>objects := objects world_1280x720 @
          [(8, ShaderObject Vertex FULLSCREEN_QUAD_VS), (9, ShaderObject Pixel BLOOM_PS),
           (10, Buffer parameter_buffer_desc),
           (11, ShaderObject Vertex FULLSCREEN_QUAD_VS), (12, ShaderObject Pixel TONE_MAPPING_PS),
           (13, Buffer parameter_buffer_desc),
           (14, ShaderObject Vertex FULLSCREEN_QUAD_VS), (15, ShaderObject Pixel VIGNETTE_PS),
           (16, Buffer parameter_buffer_desc)],
        allocated := 16\<rparr>"
  by (simp add: demo_setup_def AddEffect_def Effect_Initialize_def device_defs
      manager_1280x720_fields world_1280x720_fields PostProcessEffect_Base_ctor_def
      GetPixelShaderCode_def)


lemma world_1280x720_value:
  "world_1280x720 =
     world0
        \<lparr>objects :=
           [(1, Texture2D \<lparr>Width = 1280, Height = 720, Format = DXGI_FORMAT_R8G8B8A8_UNORM,
                TextureBindFlags = [D3D11_BIND_RENDER_TARGET, D3D11_BIND_SHADER_RESOURCE]\<rparr>),
            (2, RenderTargetView 1), (3, ShaderResourceView 1),
            (4, Texture2D \<lparr>Width = 1280, Height = 720, Format = DXGI_FORMAT_R8G8B8A8_UNORM,
                TextureBindFlags = [D3D11_BIND_RENDER_TARGET, D3D11_BIND_SHADER_RESOURCE]\<rparr>),
            (5, RenderTargetView 4), (6, ShaderResourceView 4), (7, SamplerState)],
         allocated := 7\<rparr>"
  unfolding world_1280x720_def Manager_Initialize_world0 by simp

lemmas demo_defs =
  demo_setup_manager demo_setup_world world_1280x720_value world0_def manager_1280x720_fields
  SetEffectEnabled_def

lemmas Apply_defs =
  Apply_def UpdateParameterBuffer_def Shader_Bind_def DrawFullscreenQuad_def the_draw_def
  create_eq next_outcome_eq release_def Let_def

lemma demo_calls_trailing_disabled:
  "Process_calls (SetEffectEnabled Vignette False (fst demo_setup)) 1002 0 1001 True =
     [(\<lparr>m_type = Bloom, m_enabled = True, m_vertexShader = 8, m_pixelShader = 9,
         m_parameterBuffer = 10, m_effectWidth = 1280, m_effectHeight = 720\<rparr>, 1001, 2),
      (\<lparr>m_type = ToneMapping, m_enabled = True, m_vertexShader = 11, m_pixelShader = 12,
         m_parameterBuffer = 13, m_effectWidth = 1280, m_effectHeight = 720\<rparr>, 3, 5)]"
  by (simp add: Process_calls_inner Process_calls_skip Process_calls_last Process_calls_end
      enabled_instance_def demo_defs)

text \<open>
  C1 on the demo chain with its last entry, Vignette, disabled. \<open>Process\<close> returns; Bloom
  has drawn into the first render target and ToneMapping, the last enabled entry, into the
  second, because it is not at the last list position. Nothing is drawn into the final output
  (address 1002).
\<close>

theorem Process_trailing_disabled:
  "\<not> isl (Process (SetEffectEnabled Vignette False (fst demo_setup)) 1000 1001 1002 (snd demo_setup))
   \<and> map target (draws (projr
         (Process (SetEffectEnabled Vignette False (fst demo_setup)) 1000 1001 1002 (snd demo_setup))))
       = [m_renderTargetView1 (fst demo_setup), m_renderTargetView2 (fst demo_setup)]
   \<and> 1002 \<notin> set (map target (draws (projr
         (Process (SetEffectEnabled Vignette False (fst demo_setup)) 1000 1001 1002 (snd demo_setup)))))"
  apply (simp only: Process_eq demo_calls_trailing_disabled)
  apply (simp add: demo_defs Apply_defs)
  done


text \<open>
  C2 on the demo chain with all three entries disabled. The list is not empty, so the copy
  is not taken; the loop skips every entry; \<open>Process\<close> returns the world as it was, with no
  draw and no copy into the final output.
\<close>

theorem Process_all_disabled:
  "Process (SetEffectEnabled Bloom False (SetEffectEnabled ToneMapping False
             (SetEffectEnabled Vignette False (fst demo_setup))))
       1000 1001 1002 (snd demo_setup)
     = Inr (snd demo_setup)
   \<and> draws (snd demo_setup) = []
   \<and> m_effectOrder (SetEffectEnabled Bloom False (SetEffectEnabled ToneMapping False
             (SetEffectEnabled Vignette False (fst demo_setup))))
       = [Bloom, ToneMapping, Vignette]"
proof -
  let ?m = "SetEffectEnabled Bloom False (SetEffectEnabled ToneMapping False
             (SetEffectEnabled Vignette False (fst demo_setup)))"
  have calls: "Process_calls ?m 1002 0 1001 True = []"
    by (simp add: Process_calls_inner Process_calls_skip Process_calls_last Process_calls_end
      enabled_instance_def demo_defs)
  have order: "m_effectOrder ?m = [Bloom, ToneMapping, Vignette]"
    by (simp add: demo_defs)
  have "Process ?m 1000 1001 1002 (snd demo_setup) = Inr (snd demo_setup)"
    apply (simp only: Process_eq calls order)
    apply (simp add: demo_defs)
    done
  moreover have "draws (snd demo_setup) = []"
    by (simp add: demo_defs)
  ultimately show ?thesis using order by simp
qed

text \<open>
  C3. \<open>Process\<close> performs exactly the calls of \<open>Process_calls\<close>, one for each listed
  type that has an enabled instance, in list order. The first call reads the input texture.
  Whenever a call has a successor it wrote \<open>m_renderTargetView1\<close> or \<open>m_renderTargetView2\<close>,
  in turn from call to call, and the successor reads the shader-resource view of that same
  render target, which \<open>CreateRenderTargets\<close> made on the same texture. Entries that are
  disabled or missing make no call and take no turn. For a chain of an enabled, a disabled or
  missing, and an enabled entry, \<open>Process\<close> does what it does for the chain of the two
  enabled entries.
\<close>

theorem Process_chaining:
  "Process m c inputTexture outputTarget w =
       (if c = nullptr \<or> inputTexture = nullptr \<or> outputTarget = nullptr \<or> m_effectOrder m = []
        then CopyTexture m c inputTexture outputTarget w
        else case run_calls c (m_parameters m)
                    (Process_calls m outputTarget 0 inputTexture True)
                    (w\<lparr>PSSampler := m_samplerState m\<rparr>) of
               Inl err \<Rightarrow> Inl err
             | Inr w2 \<Rightarrow> Inr (w2\<lparr>PSSampler := nullptr\<rparr>))
   \<and> map fst (Process_calls m outputTarget 0 inputTexture True) =
         List.map_filter (enabled_instance m) (m_effectOrder m)
   \<and> (Process_calls m outputTarget 0 inputTexture True \<noteq> []
        \<longrightarrow> fst (snd (hd (Process_calls m outputTarget 0 inputTexture True))) = inputTexture)
   \<and> (\<forall>k. Suc k < length (Process_calls m outputTarget 0 inputTexture True)
        \<longrightarrow> snd (snd (Process_calls m outputTarget 0 inputTexture True ! k)) =
              (if even k then m_renderTargetView1 m else m_renderTargetView2 m)
          \<and> fst (snd (Process_calls m outputTarget 0 inputTexture True ! Suc k)) =
              (if even k then m_shaderResourceView1 m else m_shaderResourceView2 m))
   \<and> (CreateRenderTargets m0 w0 = (True, m, w1)
        \<longrightarrow> (m_renderTargetView1 m, RenderTargetView (m_renderTarget1 m)) \<in> set (objects w1)
          \<and> (m_shaderResourceView1 m, ShaderResourceView (m_renderTarget1 m)) \<in> set (objects w1)
          \<and> (m_renderTargetView2 m, RenderTargetView (m_renderTarget2 m)) \<in> set (objects w1)
          \<and> (m_shaderResourceView2 m, ShaderResourceView (m_renderTarget2 m)) \<in> set (objects w1))
   \<and> (m_effectOrder m = [A, B, C] \<and> enabled_instance m A = Some a
        \<and> enabled_instance m B = None \<and> enabled_instance m C = Some c'
        \<longrightarrow> Process_calls m outputTarget 0 inputTexture True =
              [(a, inputTexture, m_renderTargetView1 m),
               (c', m_shaderResourceView1 m, outputTarget)]
          \<and> Process m c inputTexture outputTarget w =
              Process (m\<lparr>m_effectOrder := [A, C]\<rparr>) c inputTexture outputTarget w)"
proof -
  let ?calls = "Process_calls m outputTarget 0 inputTexture True"
  have inst: "map fst ?calls = List.map_filter (enabled_instance m) (m_effectOrder m)"
    using Process_calls_instances [of m outputTarget 0 inputTexture True] by simp
  have first: "?calls \<noteq> [] \<longrightarrow> fst (snd (hd ?calls)) = inputTexture"
    using Process_calls_first by blast
  have turn: "\<forall>k. Suc k < length ?calls
        \<longrightarrow> snd (snd (?calls ! k)) =
              (if even k then m_renderTargetView1 m else m_renderTargetView2 m)
          \<and> fst (snd (?calls ! Suc k)) =
              (if even k then m_shaderResourceView1 m else m_shaderResourceView2 m)"
    using Process_calls_alternate [of _ m outputTarget 0 inputTexture True] by simp
  have views: "CreateRenderTargets m0 w0 = (True, m, w1)
        \<longrightarrow> (m_renderTargetView1 m, RenderTargetView (m_renderTarget1 m)) \<in> set (objects w1)
          \<and> (m_shaderResourceView1 m, ShaderResourceView (m_renderTarget1 m)) \<in> set (objects w1)
          \<and> (m_renderTargetView2 m, RenderTargetView (m_renderTarget2 m)) \<in> set (objects w1)
          \<and> (m_shaderResourceView2 m, ShaderResourceView (m_renderTarget2 m)) \<in> set (objects w1)"
    using CreateRenderTargets_success(1) [of m0 w0 m w1] by simp
  have example: "?calls = [(a, inputTexture, m_renderTargetView1 m),
               (c', m_shaderResourceView1 m, outputTarget)]
          \<and> Process m c inputTexture outputTarget w =
              Process (m\<lparr>m_effectOrder := [A, C]\<rparr>) c inputTexture outputTarget w"
    if order: "m_effectOrder m = [A, B, C]" and A: "enabled_instance m A = Some a"
      and B: "enabled_instance m B = None" and C: "enabled_instance m C = Some c'"
  proof -
    let ?m' = "m\<lparr>m_effectOrder := [A, C]\<rparr>"
    have e': "enabled_instance ?m' t = enabled_instance m t" for t
      by (simp add: enabled_instance_def)
    have three: "?calls = [(a, inputTexture, m_renderTargetView1 m),
               (c', m_shaderResourceView1 m, outputTarget)]"
      using order A B C
      by (simp add: Process_calls_inner Process_calls_skip Process_calls_last)
    have two: "Process_calls ?m' outputTarget 0 inputTexture True =
        [(a, inputTexture, m_renderTargetView1 m), (c', m_shaderResourceView1 m, outputTarget)]"
      using A C
      by (simp add: Process_calls_inner Process_calls_last e')
    have "Process m c inputTexture outputTarget w = Process ?m' c inputTexture outputTarget w"
      by (simp only: Process_eq three two) (auto simp add: order CopyTexture_def)
    with three show ?thesis by simp
  qed
  from Process_eq [of m c inputTexture outputTarget w] inst first turn views example
  show ?thesis by blast
qed

lemma manager_1280x720_value:
  "manager_1280x720 =
     PostProcessManager_ctor
        \<lparr>m_device := 1, m_width := 1280, m_height := 720,
         m_renderTarget1 := 1, m_renderTargetView1 := 2, m_shaderResourceView1 := 3,
         m_renderTarget2 := 4, m_renderTargetView2 := 5, m_shaderResourceView2 := 6,
         m_samplerState := 7\<rparr>"
  unfolding manager_1280x720_def Manager_Initialize_world0 by simp

theorem Process_chaining_witness:
  "m_effectOrder (SetEffectEnabled ToneMapping False (fst demo_setup)) = [Bloom, ToneMapping, Vignette]
   \<and> enabled_instance (SetEffectEnabled ToneMapping False (fst demo_setup)) ToneMapping = None
   \<and> fst (CreateRenderTargets (SetEffectEnabled ToneMapping False (fst demo_setup)) world0)
   \<and> map snd (Process_calls (SetEffectEnabled ToneMapping False (fst demo_setup)) 1002 0 1001 True)
       = [(1001, 2), (3, 1002)]
   \<and> Process (SetEffectEnabled ToneMapping False (fst demo_setup)) 1000 1001 1002 (snd demo_setup)
       = Process ((SetEffectEnabled ToneMapping False (fst demo_setup))\<lparr>m_effectOrder := [Bloom, Vignette]\<rparr>)
           1000 1001 1002 (snd demo_setup)"
proof -
  let ?m = "SetEffectEnabled ToneMapping False (fst demo_setup)"
  let ?a = "\<lparr>m_type = Bloom, m_enabled = True, m_vertexShader = 8, m_pixelShader = 9,
              m_parameterBuffer = 10, m_effectWidth = 1280, m_effectHeight = 720\<rparr>"
  let ?c = "\<lparr>m_type = Vignette, m_enabled = True, m_vertexShader = 14, m_pixelShader = 15,
              m_parameterBuffer = 16, m_effectWidth = 1280, m_effectHeight = 720\<rparr>"
  have order: "m_effectOrder ?m = [Bloom, ToneMapping, Vignette]"
    by (simp add: demo_defs)
  have A: "enabled_instance ?m Bloom = Some ?a"
    and B: "enabled_instance ?m ToneMapping = None"
    and C: "enabled_instance ?m Vignette = Some ?c"
    by (simp_all add: enabled_instance_def demo_defs)
  have views: "m_renderTargetView1 ?m = 2" "m_shaderResourceView1 ?m = 3"
    by (simp_all add: demo_defs)
  have crt: "CreateRenderTargets ?m world0 = (True, ?m, snd (snd (CreateRenderTargets ?m world0)))"
    by (simp add: CreateRenderTargets_def create_eq Let_def textureDesc_def demo_defs
        manager_1280x720_value PostProcessManager_ctor_def)
  from Process_chaining [of ?m 1000 1001 1002 "snd demo_setup" ?m world0
      "snd (snd (CreateRenderTargets ?m world0))" Bloom ToneMapping Vignette ?a ?c]
    order A B C crt
  have "Process_calls ?m 1002 0 1001 True =
          [(?a, 1001, m_renderTargetView1 ?m), (?c, m_shaderResourceView1 ?m, 1002)]"
    and "Process ?m 1000 1001 1002 (snd demo_setup)
       = Process (?m\<lparr>m_effectOrder := [Bloom, Vignette]\<rparr>) 1000 1001 1002 (snd demo_setup)"
    by blast+
  moreover have "fst (CreateRenderTargets ?m world0)"
    using arg_cong [OF crt, of fst] by simp
  ultimately show ?thesis using order B views by simp
qed

theorem Process_surfaces_witness:
  "Manager_Initialize 1 1280 720 PostProcessManager_ctor world0
     = (True, manager_1280x720, world_1280x720)
   \<and> map fst (textures world_1280x720) = [1, 4]
   \<and> well_formed (snd demo_setup)
   \<and> \<not> isl (Process (fst demo_setup) 1000 1001 1002 (snd demo_setup))
   \<and> textures (projr (Process (fst demo_setup) 1000 1001 1002 (snd demo_setup)))
       = textures (snd demo_setup)
   \<and> map fst (textures (snd demo_setup)) = [1, 4]
   \<and> map snd (Process_calls (fst demo_setup) 1002 0 1001 True) = [(1001, 2), (3, 5), (6, 1002)]"
proof -
  let ?r = "Process (fst demo_setup) 1000 1001 1002 (snd demo_setup)"
  have init: "Manager_Initialize 1 1280 720 PostProcessManager_ctor world0
     = (True, manager_1280x720, world_1280x720)"
    unfolding manager_1280x720_def world_1280x720_def Manager_Initialize_world0 by simp
  have wf: "well_formed (snd demo_setup)"
    by (simp add: well_formed_def demo_defs)
  have calls: "map snd (Process_calls (fst demo_setup) 1002 0 1001 True)
      = [(1001, 2), (3, 5), (6, 1002)]"
    by (simp add: Process_calls_inner Process_calls_skip Process_calls_last Process_calls_end
      enabled_instance_def demo_defs)
  have calls': "Process_calls (fst demo_setup) 1002 0 1001 True =
     [(\<lparr>m_type = Bloom, m_enabled = True, m_vertexShader = 8, m_pixelShader = 9,
         m_parameterBuffer = 10, m_effectWidth = 1280, m_effectHeight = 720\<rparr>, 1001, 2),
      (\<lparr>m_type = ToneMapping, m_enabled = True, m_vertexShader = 11, m_pixelShader = 12,
         m_parameterBuffer = 13, m_effectWidth = 1280, m_effectHeight = 720\<rparr>, 3, 5),
      (\<lparr>m_type = Vignette, m_enabled = True, m_vertexShader = 14, m_pixelShader = 15,
         m_parameterBuffer = 16, m_effectWidth = 1280, m_effectHeight = 720\<rparr>, 6, 1002)]"
    by (simp add: Process_calls_inner Process_calls_skip Process_calls_last Process_calls_end
      enabled_instance_def demo_defs)
  have ret: "\<not> isl ?r"
    apply (simp only: Process_eq calls')
    apply (simp add: demo_defs Apply_defs)
    done
  then have eq: "?r = Inr (projr ?r)"
    by (cases ?r) simp_all
  have tex: "map fst (textures world_1280x720) = [1, 4]" "map fst (textures (snd demo_setup)) = [1, 4]"
    by (simp_all add: textures_def demo_defs parameter_buffer_desc_def)
  from Process_surfaces [of 1 1280 720 PostProcessManager_ctor world0 manager_1280x720
      world_1280x720 "snd demo_setup" "fst demo_setup" 1000 1001 1002 "projr ?r"]
    init wf eq
  have "textures (projr ?r) = textures (snd demo_setup)"
    by blast
  with init wf ret tex calls show ?thesis by simp
qed

subsection \<open>The static copy effect\<close>

lemma release_if_copyEffect [simp]: "copyEffect (release_if p w) = copyEffect w"
  by (simp add: release_if_def)

lemma Effect_Shutdown_copyEffect [simp]: "copyEffect (snd (Effect_Shutdown e w)) = copyEffect w"
  by (simp add: Effect_Shutdown_def Let_def)

lemma fold_Effect_Shutdown_copyEffect:
  "copyEffect (fold (\<lambda>(t, e) v. snd (Effect_Shutdown e v)) es w) = copyEffect w"
  by (induction es arbitrary: w) (auto split: prod.splits)

lemma Manager_Shutdown_copyEffect: "copyEffect (snd (Manager_Shutdown m w)) = copyEffect w"
  by (simp add: Manager_Shutdown_def Let_def fold_Effect_Shutdown_copyEffect)

lemma CreateRenderTargets_copyEffect:
  "copyEffect (snd (snd (CreateRenderTargets m w))) = copyEffect w"
  by (simp add: CreateRenderTargets_def create_eq Let_def)

lemma Manager_Initialize_copyEffect:
  "copyEffect (snd (snd (Manager_Initialize device width height m w))) = copyEffect w"
proof -
  let ?m = "m\<lparr>m_device := device, m_width := width, m_height := height\<rparr>"
  obtain ok m2 w2 where crt: "CreateRenderTargets ?m w = (ok, m2, w2)"
    by (cases "CreateRenderTargets ?m w")
  from CreateRenderTargets_copyEffect [of ?m w] crt have "copyEffect w2 = copyEffect w"
    by simp
  with crt show ?thesis
    by (simp add: Manager_Initialize_def Let_def create_eq)
qed

text \<open>
  C10. \<open>copyEffect\<close> is set in one place, \<open>CopyTexture\<close>, and only while it is null. Once
  it holds an instance, no \<open>CopyTexture\<close> or \<open>Process\<close> of any manager, and no
  \<open>Manager_Shutdown\<close> or \<open>Manager_Initialize\<close>, changes it. The first \<open>CopyTexture\<close> with
  non-null arguments that returns has stored the instance it initialised with the device,
  width and height of the manager it ran on, both shaders made; a \<open>CopyTexture\<close> with a
  null argument stores nothing.
\<close>

theorem copyEffect_initialized_once:
  "(copyEffect w = Some e \<and> CopyTexture m c input output w = Inr w' \<longrightarrow> copyEffect w' = Some e)
   \<and> (copyEffect w = Some e \<and> Process m c input output w = Inr w' \<longrightarrow> copyEffect w' = Some e)
   \<and> (copyEffect w = Some e
        \<longrightarrow> copyEffect (snd (Manager_Shutdown m w)) = Some e
          \<and> copyEffect (snd (snd (Manager_Initialize device width height m w))) = Some e)
   \<and> (copyEffect w = None \<and> (c = nullptr \<or> input = nullptr \<or> output = nullptr)
        \<longrightarrow> CopyTexture m c input output w = Inr w)
   \<and> (copyEffect w = None \<and> CopyTexture m c input output w = Inr w'
        \<and> c \<noteq> nullptr \<and> input \<noteq> nullptr \<and> output \<noteq> nullptr
        \<longrightarrow> copyEffect w' =
              Some (fst (snd (Effect_Initialize (m_device m) (m_width m) (m_height m)
                                (PostProcessEffect_Base_ctor PostProcessEffect_None) w)))
          \<and> (\<exists>e0. copyEffect w' = Some e0 \<and> m_type e0 = PostProcessEffect_None
                 \<and> m_effectWidth e0 = m_width m \<and> m_effectHeight e0 = m_height m
                 \<and> m_vertexShader e0 \<noteq> nullptr \<and> m_pixelShader e0 \<noteq> nullptr))"
proof -
  have keep_copy: "copyEffect w = Some e \<and> CopyTexture m c input output w = Inr w'
      \<longrightarrow> copyEffect w' = Some e"
    using CopyTexture_preserves(2) by blast
  have keep_process: "copyEffect w = Some e \<and> Process m c input output w = Inr w'
      \<longrightarrow> copyEffect w' = Some e"
    using Process_preserves(2) by blast
  have keep_cycle: "copyEffect w = Some e
        \<longrightarrow> copyEffect (snd (Manager_Shutdown m w)) = Some e
          \<and> copyEffect (snd (snd (Manager_Initialize device width height m w))) = Some e"
    by (simp add: Manager_Shutdown_copyEffect Manager_Initialize_copyEffect)
  have null: "copyEffect w = None \<and> (c = nullptr \<or> input = nullptr \<or> output = nullptr)
        \<longrightarrow> CopyTexture m c input output w = Inr w"
    by (auto simp: CopyTexture_def)
  have first: "copyEffect w' =
              Some (fst (snd (Effect_Initialize (m_device m) (m_width m) (m_height m)
                                (PostProcessEffect_Base_ctor PostProcessEffect_None) w)))
          \<and> (\<exists>e0. copyEffect w' = Some e0 \<and> m_type e0 = PostProcessEffect_None
                 \<and> m_effectWidth e0 = m_width m \<and> m_effectHeight e0 = m_height m
                 \<and> m_vertexShader e0 \<noteq> nullptr \<and> m_pixelShader e0 \<noteq> nullptr)"
    if none: "copyEffect w = None" and ret: "CopyTexture m c input output w = Inr w'"
      and args: "c \<noteq> nullptr" "input \<noteq> nullptr" "output \<noteq> nullptr"
  proof -
    obtain ok e0 w1 where init: "Effect_Initialize (m_device m) (m_width m) (m_height m)
                         (PostProcessEffect_Base_ctor PostProcessEffect_None) w = (ok, e0, w1)"
      by (cases "Effect_Initialize (m_device m) (m_width m) (m_height m)
                         (PostProcessEffect_Base_ctor PostProcessEffect_None) w") auto
    let ?w1 = "w1\<lparr>copyEffect := Some e0\<rparr>"
    from ret none args init
    have ap: "Apply c input output PostProcessParams_ctor e0 ?w1 = Inr w'"
      by (simp add: CopyTexture_def)
    from Apply_preserves(1) [OF ap] have stored: "copyEffect w' = Some e0"
      by simp
    note r = Effect_Initialize_result [OF init]
    from r have type: "m_type e0 = PostProcessEffect_None" and en: "m_enabled e0"
      by (simp_all add: PostProcessEffect_Base_ctor_def)
    from ap args en have shaders: "m_vertexShader e0 \<noteq> nullptr" "m_pixelShader e0 \<noteq> nullptr"
      by (auto simp: Apply_def Let_def split: if_splits)
    have "m_device m \<noteq> nullptr"
    proof
      assume "m_device m = nullptr"
      with init have "e0 = PostProcessEffect_Base_ctor PostProcessEffect_None"
        by (simp add: Effect_Initialize_def)
      with shaders show False
        by (simp add: PostProcessEffect_Base_ctor_def)
    qed
    with r have "m_effectWidth e0 = m_width m" "m_effectHeight e0 = m_height m"
      by simp_all
    with stored type init shaders show ?thesis by simp
  qed
  from keep_copy keep_process keep_cycle null first show ?thesis by blast
qed

lemma first_copy_eval:
  "\<not> isl first_copy"
  "copyEffect (projr first_copy) =
     Some \<lparr>m_type = PostProcessEffect_None, m_enabled = True, m_vertexShader = 8,
            m_pixelShader = 9, m_parameterBuffer = 10, m_effectWidth = 1280,
            m_effectHeight = 720\<rparr>"
  "objects (projr first_copy) =
     objects world_1280x720 @
       [(8, ShaderObject Vertex FULLSCREEN_QUAD_VS), (9, ShaderObject Pixel COPY_PS),
        (10, Buffer parameter_buffer_desc)]"
  "allocated (projr first_copy) = 11" "outcomes (projr first_copy) = []"
  "map view (draws (projr first_copy)) = [(1280, 720)]"
  "PSSampler (projr first_copy) = nullptr"
  by (simp_all add: first_copy_def Process_def CopyTexture_def Effect_Initialize_def
      PostProcessEffect_Base_ctor_def GetPixelShaderCode_def device_defs Apply_defs
      manager_1280x720_fields world_1280x720_value world0_def)

lemma second_manager_eval:
  "fst second_manager"
  "m_width (fst (snd second_manager)) = 640" "m_height (fst (snd second_manager)) = 480"
  "m_effectOrder (fst (snd second_manager)) = []"
  "objects (snd (snd second_manager)) =
     objects (projr first_copy) @
       [(12, Texture2D \<lparr>Width = 640, Height = 480, Format = DXGI_FORMAT_R8G8B8A8_UNORM,
              TextureBindFlags = [D3D11_BIND_RENDER_TARGET, D3D11_BIND_SHADER_RESOURCE]\<rparr>),
        (13, RenderTargetView 12), (14, ShaderResourceView 12),
        (15, Texture2D \<lparr>Width = 640, Height = 480, Format = DXGI_FORMAT_R8G8B8A8_UNORM,
              TextureBindFlags = [D3D11_BIND_RENDER_TARGET, D3D11_BIND_SHADER_RESOURCE]\<rparr>),
        (16, RenderTargetView 15), (17, ShaderResourceView 15), (18, SamplerState)]"
  "outcomes (snd (snd second_manager)) = []"
  "draws (snd (snd second_manager)) = draws (projr first_copy)"
  by (simp_all add: second_manager_def Manager_Initialize_def CreateRenderTargets_def
      textureDesc_def create_eq Let_def PostProcessManager_ctor_def first_copy_eval)


theorem copyEffect_initialized_once_witness:
  "copyEffect world_1280x720 = None
   \<and> \<not> isl first_copy
   \<and> copyEffect (projr first_copy) =
       Some \<lparr>m_type = PostProcessEffect_None, m_enabled = True, m_vertexShader = 8,
              m_pixelShader = 9, m_parameterBuffer = 10, m_effectWidth = 1280,
              m_effectHeight = 720\<rparr>
   \<and> fst second_manager
   \<and> m_width (fst (snd second_manager)) = 640 \<and> m_height (fst (snd second_manager)) = 480
   \<and> \<not> isl second_copy
   \<and> copyEffect (projr second_copy) = copyEffect (projr first_copy)
   \<and> map view (draws (projr second_copy)) = [(1280, 720), (1280, 720)]"
proof -
  let ?e = "\<lparr>m_type = PostProcessEffect_None, m_enabled = True, m_vertexShader = 8,
              m_pixelShader = 9, m_parameterBuffer = 10, m_effectWidth = 1280,
              m_effectHeight = 720\<rparr>"
  let ?m2 = "fst (snd second_manager)" and ?w2 = "snd (snd second_manager)"
  have none: "copyEffect world_1280x720 = None"
    by (simp add: world_1280x720_fields)
  have kept: "copyEffect ?w2 = Some ?e"
    unfolding second_manager_def
    by (simp add: Manager_Initialize_copyEffect first_copy_eval(2))
  have copy: "second_copy = Apply 1000 1001 1002 PostProcessParams_ctor ?e ?w2"
    by (simp add: second_copy_def Process_def CopyTexture_def kept second_manager_eval)
  from Apply_draws [of 1000 1001 1002 ?e ?w2 PostProcessParams_ctor] second_manager_eval(6)
  obtain w' d where ap: "Apply 1000 1001 1002 PostProcessParams_ctor ?e ?w2 = Inr w'"
    and d: "draws w' = draws ?w2 @ [d]" "view d = (m_effectWidth ?e, m_effectHeight ?e)"
    by auto
  have second: "\<not> isl second_copy"
    by (simp add: copy ap)
  have views: "map view (draws (projr second_copy)) = [(1280, 720), (1280, 720)]"
    by (simp add: copy ap d second_manager_eval(7) first_copy_eval(6))
  from second have eq: "Process ?m2 1000 1001 1002 ?w2 = Inr (projr second_copy)"
    by (cases second_copy) (simp_all add: second_copy_def)
  from copyEffect_initialized_once
         [of ?w2 ?e ?m2 1000 1001 1002 "projr second_copy"] kept eq
  have "copyEffect (projr second_copy) = Some ?e"
    by blast
  with none first_copy_eval(1,2) second_manager_eval(1-3) second views show ?thesis
    by simp
qed

subsection \<open>Argument checks\<close>

lemma Effect_Initialize_dimensions:
  assumes "device \<noteq> nullptr"
  shows "Effect_Initialize device width height e w =
     (case Effect_Initialize device width' height' e w of
        (ok, e', w') \<Rightarrow> (ok, e'\<lparr>m_effectWidth := width, m_effectHeight := height\<rparr>, w'))"
  using assms
  by (simp add: Effect_Initialize_def CreateVertexShaderFromString_def
      CreatePixelShaderFromString_def create_eq Let_def GetPixelShaderCode_def)

text \<open>
  C4, as the code has it. \<open>Apply\<close> with a null context, input texture or output target
  returns the world unchanged, and \<open>Effect_Initialize\<close> with a null device returns
  \<open>False\<close> with the instance and the world unchanged. There is no other argument check:
  with a device, \<open>Effect_Initialize\<close> stores whatever width and height it is given, and its
  result and what it creates do not depend on them; and \<open>Apply\<close> of an enabled instance with
  both shaders issues its draw from the input to the output whatever the two are views of,
  when the device lets the quad's vertex buffer be made.
\<close>

theorem invalid_arguments:
  "(c = nullptr \<or> inputTexture = nullptr \<or> outputTarget = nullptr
      \<longrightarrow> Apply c inputTexture outputTarget params e w = Inr w)
   \<and> Effect_Initialize nullptr width height e w = (False, e, w)
   \<and> (device \<noteq> nullptr
      \<longrightarrow> Effect_Initialize device width height e w =
            (case Effect_Initialize device width' height' e w of
               (ok, e', w') \<Rightarrow> (ok, e'\<lparr>m_effectWidth := width, m_effectHeight := height\<rparr>, w'))
        \<and> m_effectWidth (fst (snd (Effect_Initialize device width height e w))) = width
        \<and> m_effectHeight (fst (snd (Effect_Initialize device width height e w))) = height)
   \<and> (c \<noteq> nullptr \<and> inputTexture \<noteq> nullptr \<and> outputTarget \<noteq> nullptr \<and> m_enabled e
        \<and> m_vertexShader e \<noteq> nullptr \<and> m_pixelShader e \<noteq> nullptr \<and> outcomes w = []
      \<longrightarrow> (\<exists>w' d. Apply c inputTexture outputTarget params e w = Inr w'
                 \<and> draws w' = draws w @ [d]
                 \<and> target d = outputTarget \<and> source d = inputTexture))"
proof -
  have null_apply: "c = nullptr \<or> inputTexture = nullptr \<or> outputTarget = nullptr
      \<longrightarrow> Apply c inputTexture outputTarget params e w = Inr w"
    using Apply_null by blast
  have null_device: "Effect_Initialize nullptr width height e w = (False, e, w)"
    by (simp add: Effect_Initialize_def)
  have dims: "Effect_Initialize device width height e w =
            (case Effect_Initialize device width' height' e w of
               (ok, e', w') \<Rightarrow> (ok, e'\<lparr>m_effectWidth := width, m_effectHeight := height\<rparr>, w'))
        \<and> m_effectWidth (fst (snd (Effect_Initialize device width height e w))) = width
        \<and> m_effectHeight (fst (snd (Effect_Initialize device width height e w))) = height"
    if dev: "device \<noteq> nullptr"
  proof -
    obtain ok e' w' where init: "Effect_Initialize device width height e w = (ok, e', w')"
      by (cases "Effect_Initialize device width height e w") auto
    from Effect_Initialize_result [OF init] dev Effect_Initialize_dimensions [OF dev] init
    show ?thesis by simp
  qed
  have draw: "c \<noteq> nullptr \<and> inputTexture \<noteq> nullptr \<and> outputTarget \<noteq> nullptr \<and> m_enabled e
        \<and> m_vertexShader e \<noteq> nullptr \<and> m_pixelShader e \<noteq> nullptr \<and> outcomes w = []
      \<longrightarrow> (\<exists>w' d. Apply c inputTexture outputTarget params e w = Inr w'
                 \<and> draws w' = draws w @ [d]
                 \<and> target d = outputTarget \<and> source d = inputTexture)"
    using Apply_draws [of c inputTexture outputTarget e w params] by blast
  from null_apply null_device dims draw show ?thesis by blast
qed

text \<open>
  C4 as stated fails on dimensions: on a device that creates what it is asked for,
  \<open>Effect_Initialize\<close> with width 0 and height -720 returns \<open>True\<close>, has created the two
  shaders and the buffer, and has stored the dimensions.
\<close>

theorem invalid_dimensions_counterexample:
  "fst (Effect_Initialize 1 0 (- 720) (PostProcessEffect_Base_ctor Grayscale) world0) = True
   \<and> map fst (objects (snd (snd
        (Effect_Initialize 1 0 (- 720) (PostProcessEffect_Base_ctor Grayscale) world0)))) = [1, 2, 3]
   \<and> m_effectWidth (fst (snd
        (Effect_Initialize 1 0 (- 720) (PostProcessEffect_Base_ctor Grayscale) world0))) = 0
   \<and> m_effectHeight (fst (snd
        (Effect_Initialize 1 0 (- 720) (PostProcessEffect_Base_ctor Grayscale) world0))) = - 720"
  by (simp add: Effect_Initialize_def device_defs world0_def PostProcessEffect_Base_ctor_def)

text \<open>
  The same at concrete arguments, aliasing included: Bloom of the demo chain applied with the
  shader-resource view (address 3) and the render-target view (address 2) of the same first
  render target draws, reading and writing that texture.
\<close>

theorem invalid_arguments_witness:
  "Apply nullptr 3 2 PostProcessParams_ctor
       \<lparr>m_type = Bloom, m_enabled = True, m_vertexShader = 8, m_pixelShader = 9,
          m_parameterBuffer = 10, m_effectWidth = 1280, m_effectHeight = 720\<rparr>
       (snd demo_setup)
     = Inr (snd demo_setup)
   \<and> Effect_Initialize nullptr 1280 720 (PostProcessEffect_Base_ctor Bloom) world0
     = (False, PostProcessEffect_Base_ctor Bloom, world0)
   \<and> m_effectWidth (fst (snd (Effect_Initialize 1 0 (- 720)
         (PostProcessEffect_Base_ctor Bloom) world0))) = 0
   \<and> (3, ShaderResourceView 1) \<in> set (objects (snd demo_setup))
   \<and> (2, RenderTargetView 1) \<in> set (objects (snd demo_setup))
   \<and> \<not> isl (Apply 1000 3 2 PostProcessParams_ctor
         \<lparr>m_type = Bloom, m_enabled = True, m_vertexShader = 8, m_pixelShader = 9,
            m_parameterBuffer = 10, m_effectWidth = 1280, m_effectHeight = 720\<rparr>
         (snd demo_setup))
   \<and> map target (draws (projr (Apply 1000 3 2 PostProcessParams_ctor
         \<lparr>m_type = Bloom, m_enabled = True, m_vertexShader = 8, m_pixelShader = 9,
            m_parameterBuffer = 10, m_effectWidth = 1280, m_effectHeight = 720\<rparr>
         (snd demo_setup)))) = [2]
   \<and> map source (draws (projr (Apply 1000 3 2 PostProcessParams_ctor
         \<lparr>m_type = Bloom, m_enabled = True, m_vertexShader = 8, m_pixelShader = 9,
            m_parameterBuffer = 10, m_effectWidth = 1280, m_effectHeight = 720\<rparr>
         (snd demo_setup)))) = [3]"
proof -
  let ?e = "\<lparr>m_type = Bloom, m_enabled = True, m_vertexShader = 8, m_pixelShader = 9,
          m_parameterBuffer = 10, m_effectWidth = 1280, m_effectHeight = 720\<rparr>"
  let ?w = "snd demo_setup"
  have w: "outcomes ?w = []" "draws ?w = []"
    "(3, ShaderResourceView 1) \<in> set (objects ?w)" "(2, RenderTargetView 1) \<in> set (objects ?w)"
    by (simp_all add: demo_defs)
  from invalid_arguments [of nullptr 3 2 PostProcessParams_ctor ?e ?w]
  have null_ctx: "Apply nullptr 3 2 PostProcessParams_ctor ?e ?w = Inr ?w"
    by simp
  from invalid_arguments [of 1000 3 2 PostProcessParams_ctor ?e ?w 1280 720 1 1 1] w(1,2)
  obtain w' d where ap: "Apply 1000 3 2 PostProcessParams_ctor ?e ?w = Inr w'"
    and d: "draws w' = [d]" "target d = 2" "source d = 3"
    by auto
  from invalid_arguments [of 1000 3 2 PostProcessParams_ctor "PostProcessEffect_Base_ctor Bloom"
      world0 1280 720]
  have null_dev: "Effect_Initialize nullptr 1280 720 (PostProcessEffect_Base_ctor Bloom) world0
     = (False, PostProcessEffect_Base_ctor Bloom, world0)"
    by blast
  have dev: "(1::nat) \<noteq> nullptr"
    by simp
  from invalid_arguments [of 1000 3 2 PostProcessParams_ctor "PostProcessEffect_Base_ctor Bloom"
      world0 0 "- 720" 1 1 1] dev
  have dims: "m_effectWidth (fst (snd (Effect_Initialize 1 0 (- 720)
         (PostProcessEffect_Base_ctor Bloom) world0))) = 0"
    by blast
  from null_ctx null_dev dims w(3,4) ap d show ?thesis by simp
qed

subsection \<open>AddEffect on failure\<close>

lemma Process_calls_stored:
  assumes "(e, a, b) \<in> set (Process_calls m outputTarget i currentInput useRT1)"
  shows "\<exists>t. (t, e) \<in> set (m_effects m) \<and> m_enabled e"
proof -
  from assms have "e \<in> set (map fst (Process_calls m outputTarget i currentInput useRT1))"
    by force
  then have "e \<in> set (List.map_filter (enabled_instance m) (drop i (m_effectOrder m)))"
    by (simp only: Process_calls_instances)
  then obtain t where "enabled_instance m t = Some e"
    by (auto simp: map_filter_def)
  then have "map_of (m_effects m) t = Some e" "m_enabled e"
    by (simp_all add: enabled_instance_Some)
  then show ?thesis
    by (auto dest: map_of_SomeD)
qed

text \<open>
  \<open>AddEffect\<close> of a type that is not active: the instance's \<open>Effect_Initialize\<close>
  succeeds exactly when the instance ends up with both shaders and the buffer. When it
  fails (a shader or the buffer could not be created) the manager is returned as it was,
  neither list nor map extended, and \<open>AddEffect\<close> has no error result; when it succeeds
  the type is appended to \<open>m_effectOrder\<close> and the instance stored. So every instance
  stored in \<open>m_effects\<close> stays fully initialised, and the instances the loop of
  \<open>Process\<close> applies are stored ones. The instance of \<open>CopyTexture\<close> is not one of
  them.
\<close>

lemma AddEffect_atomic:
  assumes "map_of (m_effects m) D = None"
    and "Effect_Initialize (m_device m) (m_width m) (m_height m)
           (PostProcessEffect_Base_ctor D) w = (ok, e, w1)"
  shows "(ok \<longleftrightarrow> fully_initialized e)
       \<and> (\<not> ok \<longrightarrow> fst (AddEffect D m w) = m)
       \<and> (ok \<longrightarrow> AddEffect D m w =
                    (m\<lparr>m_effectOrder := m_effectOrder m @ [D],
                       m_effects := m_effects m @ [(D, e)]\<rparr>, w1))
       \<and> ((\<forall>(t, x) \<in> set (m_effects m). fully_initialized x)
            \<longrightarrow> (\<forall>(t, x) \<in> set (m_effects (fst (AddEffect D m w))). fully_initialized x)
              \<and> (\<forall>(x, a, b) \<in> set (Process_calls (fst (AddEffect D m w))
                                        outputTarget 0 inputTexture True).
                    fully_initialized x))"
proof -
  note r = Effect_Initialize_result [OF assms(2)]
  have iff: "ok \<longleftrightarrow> fully_initialized e"
    using r ctor_not_initialized [of D] by blast
  have fail: "\<not> ok \<longrightarrow> fst (AddEffect D m w) = m"
    using assms by (simp add: AddEffect_def)
  have succ: "ok \<longrightarrow> AddEffect D m w =
                    (m\<lparr>m_effectOrder := m_effectOrder m @ [D],
                       m_effects := m_effects m @ [(D, e)]\<rparr>, w1)"
    using assms by (simp add: AddEffect_def update_absent)
  have inv: "(\<forall>(t, x) \<in> set (m_effects m). fully_initialized x)
            \<longrightarrow> (\<forall>(t, x) \<in> set (m_effects (fst (AddEffect D m w))). fully_initialized x)"
  proof (cases ok)
    case True
    with succ iff show ?thesis by auto
  next
    case False
    with fail show ?thesis by simp
  qed
  have applied: "\<forall>(x, a, b) \<in> set (Process_calls (fst (AddEffect D m w))
                                        outputTarget 0 inputTexture True).
                    fully_initialized x"
    if "\<forall>(t, x) \<in> set (m_effects (fst (AddEffect D m w))). fully_initialized x"
    using Process_calls_stored [of _ _ _ "fst (AddEffect D m w)" outputTarget 0 inputTexture True]
      that by fastforce
  from iff fail succ inv applied show ?thesis by blast
qed

lemma AddEffect_atomic_witness:
  "map_of (m_effects manager_1280x720) Bloom = None
   \<and> fst (AddEffect Bloom manager_1280x720 (world_1280x720\<lparr>outcomes := [True, True, False]\<rparr>))
       = manager_1280x720
   \<and> m_effectOrder (fst (AddEffect Bloom manager_1280x720 world_1280x720)) = [Bloom]
   \<and> map fst (m_effects (fst (AddEffect Bloom manager_1280x720 world_1280x720))) = [Bloom]"
proof -
  let ?init = "\<lambda>w. Effect_Initialize (m_device manager_1280x720) (m_width manager_1280x720)
                 (m_height manager_1280x720) (PostProcessEffect_Base_ctor Bloom) w"
  let ?bad = "world_1280x720\<lparr>outcomes := [True, True, False]\<rparr>"
  have absent: "map_of (m_effects manager_1280x720) Bloom = None"
    by (simp add: manager_1280x720_fields)
  have bad: "\<not> fst (?init ?bad)"
    by (simp add: Effect_Initialize_def device_defs manager_1280x720_fields)
  have good: "fst (?init world_1280x720)"
    by (simp add: Effect_Initialize_def device_defs manager_1280x720_fields
        world_1280x720_fields)
  have split: "?init w = (fst (?init w), fst (snd (?init w)), snd (snd (?init w)))" for w
    by simp
  from AddEffect_atomic [OF absent split [of ?bad]] bad
  have 1: "fst (AddEffect Bloom manager_1280x720 ?bad) = manager_1280x720"
    by blast
  from AddEffect_atomic [OF absent split [of world_1280x720]] good
  have 2: "AddEffect Bloom manager_1280x720 world_1280x720 =
      (manager_1280x720\<lparr>m_effectOrder := m_effectOrder manager_1280x720 @ [Bloom],
          m_effects := m_effects manager_1280x720 @ [(Bloom, fst (snd (?init world_1280x720)))]\<rparr>,
       snd (snd (?init world_1280x720)))"
    by blast
  from absent 1 2 show ?thesis
    by (simp add: manager_1280x720_fields)
qed

subsection \<open>The instance of CopyTexture on failure\<close>

text \<open>
  C6 fails on the copy path of \<open>Process\<close>. \<open>CopyTexture\<close> drops the result of
  \<open>Effect_Initialize\<close>, keeps the instance in the static and applies it. On the 1280x720
  manager with no effect added, when the device creates both shaders and refuses the
  parameter buffer, \<open>Effect_Initialize\<close> fails, and \<open>Process\<close> returns with the static
  holding an instance whose parameter buffer is null, which is not fully initialised, and
  with one draw issued through it, the constant buffer bound being null. When the device
  refuses the vertex shader, \<open>Process\<close> dereferences the null shader of that instance. On
  the same two worlds \<open>AddEffect\<close>, which tests the result, leaves the manager as it was.
\<close>

theorem CopyTexture_partial_instance:
  "\<not> fst (Effect_Initialize (m_device manager_1280x720) (m_width manager_1280x720)
            (m_height manager_1280x720) (PostProcessEffect_Base_ctor PostProcessEffect_None)
            (world_1280x720\<lparr>outcomes := [True, True, False]\<rparr>))
   \<and> \<not> isl (Process manager_1280x720 1000 1001 1002
              (world_1280x720\<lparr>outcomes := [True, True, False]\<rparr>))
   \<and> copyEffect (projr (Process manager_1280x720 1000 1001 1002
                          (world_1280x720\<lparr>outcomes := [True, True, False]\<rparr>))) =
       Some \<lparr>m_type = PostProcessEffect_None, m_enabled = True, m_vertexShader = 8,
              m_pixelShader = 9, m_parameterBuffer = nullptr, m_effectWidth = 1280,
              m_effectHeight = 720\<rparr>
   \<and> \<not> fully_initialized
          \<lparr>m_type = PostProcessEffect_None, m_enabled = True, m_vertexShader = 8,
           m_pixelShader = 9, m_parameterBuffer = nullptr, m_effectWidth = 1280,
           m_effectHeight = 720\<rparr>
   \<and> draws (projr (Process manager_1280x720 1000 1001 1002
                     (world_1280x720\<lparr>outcomes := [True, True, False]\<rparr>))) =
       [\<lparr>target = 1002, source = 1001, vertex_shader = 8, pixel_shader = 9,
         constants = nullptr, sampler = nullptr, view = (1280, 720)\<rparr>]
   \<and> Process manager_1280x720 1000 1001 1002 (world_1280x720\<lparr>outcomes := [False]\<rparr>)
       = Inl NullPointerDereference
   \<and> fst (AddEffect PostProcessEffect_None manager_1280x720
             (world_1280x720\<lparr>outcomes := [True, True, False]\<rparr>)) = manager_1280x720
   \<and> fst (AddEffect PostProcessEffect_None manager_1280x720
             (world_1280x720\<lparr>outcomes := [False]\<rparr>)) = manager_1280x720"
proof -
  let ?buffer = "world_1280x720\<lparr>outcomes := [True, True, False]\<rparr>"
  let ?shader = "world_1280x720\<lparr>outcomes := [False]\<rparr>"
  let ?e = "\<lparr>m_type = PostProcessEffect_None, m_enabled = True, m_vertexShader = 8,
              m_pixelShader = 9, m_parameterBuffer = nullptr, m_effectWidth = 1280,
              m_effectHeight = 720\<rparr>"
  have failed: "\<not> fst (Effect_Initialize (m_device manager_1280x720) (m_width manager_1280x720)
            (m_height manager_1280x720) (PostProcessEffect_Base_ctor PostProcessEffect_None)
            ?buffer)"
    by (simp add: Effect_Initialize_def PostProcessEffect_Base_ctor_def GetPixelShaderCode_def
        device_defs manager_1280x720_fields world_1280x720_value world0_def)
  have copy: "\<not> isl (Process manager_1280x720 1000 1001 1002 ?buffer)"
    "copyEffect (projr (Process manager_1280x720 1000 1001 1002 ?buffer)) = Some ?e"
    "draws (projr (Process manager_1280x720 1000 1001 1002 ?buffer)) =
       [\<lparr>target = 1002, source = 1001, vertex_shader = 8, pixel_shader = 9,
         constants = nullptr, sampler = nullptr, view = (1280, 720)\<rparr>]"
    by (simp_all add: Process_def CopyTexture_def Effect_Initialize_def
        PostProcessEffect_Base_ctor_def GetPixelShaderCode_def device_defs Apply_defs
        manager_1280x720_fields world_1280x720_value world0_def)
  have partial: "\<not> fully_initialized ?e"
    by (simp add: fully_initialized_def)
  have null: "Process manager_1280x720 1000 1001 1002 ?shader = Inl NullPointerDereference"
    by (simp add: Process_def CopyTexture_def Effect_Initialize_def
        PostProcessEffect_Base_ctor_def GetPixelShaderCode_def device_defs Apply_defs
        manager_1280x720_fields world_1280x720_value world0_def)
  have add: "fst (AddEffect PostProcessEffect_None manager_1280x720 ?buffer) = manager_1280x720"
    "fst (AddEffect PostProcessEffect_None manager_1280x720 ?shader) = manager_1280x720"
    by (simp_all add: AddEffect_def Effect_Initialize_def Effect_Shutdown_def
        PostProcessEffect_Base_ctor_def GetPixelShaderCode_def device_defs
        manager_1280x720_fields)
  show ?thesis
    by (intro conjI failed copy partial null add)
qed

end
